theory Spec2Isabelle
  imports Main
begin

section \<open>Errors\<close>

text \<open>
  Go errors as values. \<open>ErrNoEntries\<close> is \<open>db.ErrNoEntries\<close>, \<open>Err m\<close> is any other
  leaf error with message \<open>m\<close>, and \<open>Wrap m e\<close> is \<open>gtserror.Newf("m: %w", e)\<close>: a new
  error that wraps \<open>e\<close>. A function returning Go's \<open>error\<close> returns \<open>err option\<close>,
  with \<open>None\<close> for \<open>nil\<close>.
\<close>

datatype err = ErrNoEntries | Err string | Wrap string err | Joined "err list"

text \<open>
  \<open>errors.Is(e, db.ErrNoEntries)\<close>: follows the chain of wrapped errors, and every
  member of a joined error.
\<close>

fun is_ErrNoEntries :: "err \<Rightarrow> bool" where
  "is_ErrNoEntries ErrNoEntries = True"
| "is_ErrNoEntries (Err m) = False"
| "is_ErrNoEntries (Wrap m e) = is_ErrNoEntries e"
| "is_ErrNoEntries (Joined es) = (\<exists>e \<in> set es. is_ErrNoEntries e)"

text \<open>
  \<open>gtserror.MultiError.Combine()\<close>: \<open>nil\<close> when nothing was appended, the joined
  errors otherwise.
\<close>

definition Combine :: "err list \<Rightarrow> err option" where
  "Combine errs = (if errs = [] then None else Some (Joined errs))"

section \<open>Domain entities\<close>

text \<open>
  The structs of package \<open>gtsmodel\<close>, with the fields the workers read. Pointer fields
  that the storage layer populates (\<open>TargetAccount\<close>, \<open>Account\<close>, ...) are carried in
  populated form; the \<open>Populate*\<close> calls of the source are modelled by their outcome
  only. \<open>aIsRemote\<close> is the result of \<open>Account.IsRemote()\<close>.
\<close>

record Account =
  aID :: string
  aURI :: string
  aIsRemote :: bool

datatype NotificationType =
    NotificationFollow
  | NotificationFollowRequest
  | NotificationMention
  | NotificationReblog
  | NotificationFave
  | NotificationPoll
  | NotificationSignup

text \<open>
  \<open>string(notificationType)\<close>. The spellings of the constants are those of package
  \<open>gtsmodel\<close>; no property below depends on them.
\<close>

fun type_string :: "NotificationType \<Rightarrow> string" where
  "type_string NotificationFollow = ''follow''"
| "type_string NotificationFollowRequest = ''follow_request''"
| "type_string NotificationMention = ''mention''"
| "type_string NotificationReblog = ''reblog''"
| "type_string NotificationFave = ''favourite''"
| "type_string NotificationPoll = ''poll''"
| "type_string NotificationSignup = ''admin.sign_up''"

record Notification =
  nID :: string
  nNotificationType :: NotificationType
  nTargetAccountID :: string
  nTargetAccount :: "Account option"
  nOriginAccountID :: string
  nOriginAccount :: "Account option"
  nStatusID :: string

record Mention =
  mID :: string
  mStatusID :: string
  mTargetAccountID :: string
  mTargetAccount :: Account
  mOriginAccount :: Account

text \<open>
  A status. \<open>sBoostOfThreadID\<close> is \<open>status.BoostOf.ThreadID\<close> (the boosted status is a
  pointer to another status in the source; only its thread is read here).
\<close>

record Status =
  sID :: string
  sURI :: string
  sAccountID :: string
  sAccount :: Account
  sThreadID :: string
  sInReplyToID :: string
  sBoostOfID :: string
  sBoostOfAccountID :: string
  sBoostOfAccount :: Account
  sBoostOfThreadID :: string
  sMentions :: "Mention list"

record StatusFave =
  fID :: string
  fAccountID :: string
  fAccount :: Account
  fTargetAccountID :: string
  fTargetAccount :: Account
  fStatusID :: string
  fStatus :: Status

record Follow =
  foID :: string
  foAccountID :: string
  foAccount :: Account
  foTargetAccountID :: string
  foTargetAccount :: Account

text \<open>The API representation that is streamed to the user.\<close>

record APINotification =
  apiID :: string
  apiType :: string
  apiHasStatus :: bool

section \<open>The world: storage, locks and the order of effects\<close>

datatype queue = DeliveryQueue | ClientQueue | FederatorQueue

datatype timeline = HomeTimeline | ListTimeline

text \<open>
  Every call to a collaborator outside the workers (storage, locks, queues, federation,
  streaming) is recorded, in order, in the trace of the world.
\<close>

datatype event =
    EvLock string
  | EvUnlock string
  | EvGetNotification NotificationType string string string
  | EvPutNotification Notification
  | EvDeleteNotificationByID string
  | EvGetFilters string
  | EvAccountToAPI string
  | EvGetStatusByID string
  | EvGetAccountByID string
  | EvStatusToAPI string
  | EvStreamNotify string APINotification
  | EvIsThreadMuted string string
  | EvPopulate string
  | EvQueueDelete queue string string
  | EvWipeStatus string bool
  | EvWipeItems timeline string string
  | EvDeleteFollow string string
  | EvDeleteFollowRequest string string
  | EvPutPollVote string
  | EvInvalidateStatus string
  | EvIncrementVotes string
  | EvStatsUpdate string string
  | EvRedirectFollowers string string
  | EvUpdateMove string nat
  | EvFederate string string
  | EvLog string

record world =
  notifications :: "Notification list"
  thread_mutes :: "(string \<times> string) list"
  held :: "string list"
  ulids :: nat
  trace :: "event list"

definition emit :: "event \<Rightarrow> world \<Rightarrow> world" where
  "emit e w = w\<lparr>trace := trace w @ [e]\<rparr>"

text \<open>
  The behaviour of the collaborators that the workers cannot control: which calls fail,
  and which identifiers \<open>id.NewULID()\<close> hands out. For the calls that read or write
  the tables of the world, a field of type \<open>string option\<close> gives the message of a
  genuine failure (never the no-rows condition, which the tables decide). For every
  other call, \<open>fails\<close> gives the error it returns, if any; the call is named by the
  event it leaves in the trace.
\<close>

record collab =
  GetNotification_fails :: "NotificationType \<Rightarrow> string \<Rightarrow> string \<Rightarrow> string \<Rightarrow> string option"
  PutNotification_fails :: "Notification \<Rightarrow> string option"
  DeleteNotificationByID_fails :: "string \<Rightarrow> string option"
  IsThreadMutedByAccount_fails :: "string \<Rightarrow> string \<Rightarrow> string option"
  fails :: "event \<Rightarrow> err option"
  GetAccountByID_result :: "string \<Rightarrow> err + Account"
  NewULID :: "nat \<Rightarrow> string"

section \<open>Storage of notifications and thread mutes\<close>

definition notif_matches ::
  "NotificationType \<Rightarrow> string \<Rightarrow> string \<Rightarrow> string \<Rightarrow> Notification \<Rightarrow> bool" where
  "notif_matches nt targetID originID statusID n \<longleftrightarrow>
     nNotificationType n = nt \<and> nTargetAccountID n = targetID \<and>
     nOriginAccountID n = originID \<and> nStatusID n = statusID"

text \<open>
  Modelled from the spec: \<open>DB.GetNotification\<close> (package \<open>db\<close>, not among the sources)
  reads the notification with the given type, target, origin and status, and reports
  the distinguished no-rows condition when there is none.
\<close>

definition GetNotification ::
  "collab \<Rightarrow> NotificationType \<Rightarrow> string \<Rightarrow> string \<Rightarrow> string \<Rightarrow> world
     \<Rightarrow> (err + Notification) \<times> world" where
  "GetNotification c nt targetID originID statusID w =
     (let w' = emit (EvGetNotification nt targetID originID statusID) w in
      case GetNotification_fails c nt targetID originID statusID of
        Some m \<Rightarrow> (Inl (Err m), w')
      | None \<Rightarrow>
          (case find (notif_matches nt targetID originID statusID) (notifications w) of
             None \<Rightarrow> (Inl ErrNoEntries, w')
           | Some n \<Rightarrow> (Inr n, w')))"

text \<open>
  Modelled from the spec: \<open>DB.PutNotification\<close> (package \<open>db\<close>, not among the sources)
  creates the row unless storage fails.
\<close>

definition PutNotification :: "collab \<Rightarrow> Notification \<Rightarrow> world \<Rightarrow> err option \<times> world" where
  "PutNotification c n w =
     (let w' = emit (EvPutNotification n) w in
      case PutNotification_fails c n of
        Some m \<Rightarrow> (Some (Err m), w')
      | None \<Rightarrow> (None, w'\<lparr>notifications := notifications w' @ [n]\<rparr>))"


text \<open>
  Modelled from the spec: \<open>DB.IsThreadMutedByAccount\<close> (package \<open>db\<close>, not among the
  sources) tells whether the account has a mute on the thread.
\<close>

definition IsThreadMutedByAccount ::
  "collab \<Rightarrow> string \<Rightarrow> string \<Rightarrow> world \<Rightarrow> (err + bool) \<times> world" where
  "IsThreadMutedByAccount c threadID accountID w =
     (let w' = emit (EvIsThreadMuted threadID accountID) w in
      case IsThreadMutedByAccount_fails c threadID accountID of
        Some m \<Rightarrow> (Inl (Err m), w')
      | None \<Rightarrow> (Inr ((threadID, accountID) \<in> set (thread_mutes w)), w'))"

text \<open>
  A call to a collaborator that returns only an error: the event is recorded, and the
  collaborator decides the outcome.
\<close>

definition call :: "collab \<Rightarrow> event \<Rightarrow> world \<Rightarrow> err option \<times> world" where
  "call c ev w = (fails c ev, emit ev w)"

text \<open>\<open>if err != nil { log.Errorf(ctx, msg, err) }\<close>: a failure is logged, nothing more.\<close>

definition logged :: "string \<Rightarrow> err option \<times> world \<Rightarrow> world" where
  "logged msg r = (case r of (None, w) \<Rightarrow> w | (Some e, w) \<Rightarrow> emit (EvLog msg) w)"

text \<open>
  The \<open>Populate*\<close> calls of storage, by their outcome: the argument names the entity
  (its kind and ID).
\<close>

definition Populate :: "collab \<Rightarrow> string \<Rightarrow> world \<Rightarrow> err option \<times> world" where
  "Populate c what w = call c (EvPopulate what) w"

text \<open>
  \<open>State.ProcessingLocks.Lock(uri)\<close> waits until no one holds the lock on \<open>uri\<close>: a call
  that finds it held by someone who never releases it does not return, which is \<open>None\<close>.
\<close>

definition Lock :: "string \<Rightarrow> world \<Rightarrow> world option" where
  "Lock uri w =
     (if uri \<in> set (held w) then None
      else Some (emit (EvLock uri) (w\<lparr>held := uri # held w\<rparr>)))"

definition Unlock :: "string \<Rightarrow> world \<Rightarrow> world" where
  "Unlock uri w = emit (EvUnlock uri) (w\<lparr>held := removeAll uri (held w)\<rparr>)"


section \<open>Converting a notification for the streaming API\<close>

text \<open>Modelled from the spec: \<open>DB.GetAccountByID\<close> (package \<open>db\<close>, not among the sources).\<close>

definition GetAccountByID :: "collab \<Rightarrow> string \<Rightarrow> world \<Rightarrow> (err + Account) \<times> world" where
  "GetAccountByID c i w = (GetAccountByID_result c i, emit (EvGetAccountByID i) w)"

text \<open>
  \<open>Converter.NotificationToAPINotification\<close>, for a notification with no status
  attached (\<open>n.Status == nil\<close>, as for the one \<open>Notify\<close> has just built): the accounts
  are fetched when they are not set, the origin account is converted, and when the
  notification has a status ID the status is fetched and converted. The two
  conversions (\<open>AccountToAPIAccountPublic\<close>, \<open>StatusToAPIStatus\<close>) are taken by their
  outcome, and of the result only the ID, the type and the presence of a status are
  kept. The errors are made with \<open>fmt.Errorf\<close> and \<open>%s\<close>, so they wrap nothing.
\<close>

definition NotificationToAPINotification ::
  "collab \<Rightarrow> Notification \<Rightarrow> world \<Rightarrow> (err + APINotification) \<times> world" where
  "NotificationToAPINotification c n w =
     (case (case nTargetAccount n of
              Some a \<Rightarrow> (Inr a, w)
            | None \<Rightarrow> GetAccountByID c (nTargetAccountID n) w) of
        (Inl e, w1) \<Rightarrow>
          (Inl (Err (''NotificationToapi: error getting target account with id ''
                     @ nTargetAccountID n @ '' from the db'')), w1)
      | (Inr tAccount, w1) \<Rightarrow>
      (case (case nOriginAccount n of
               Some a \<Rightarrow> (Inr a, w1)
             | None \<Rightarrow> GetAccountByID c (nOriginAccountID n) w1) of
         (Inl e, w2) \<Rightarrow>
           (Inl (Err (''NotificationToapi: error getting origin account with id ''
                      @ nOriginAccountID n @ '' from the db'')), w2)
       | (Inr ogAccount, w2) \<Rightarrow>
       (case call c (EvAccountToAPI (aID ogAccount)) w2 of
          (Some e, w3) \<Rightarrow> (Inl (Err ''NotificationToapi: error converting account to api''), w3)
        | (None, w3) \<Rightarrow>
            if nStatusID n \<noteq> [] then
              (case call c (EvGetStatusByID (nStatusID n)) w3 of
                 (Some e, w4) \<Rightarrow>
                   (Inl (Err (''NotificationToapi: error getting status with id ''
                              @ nStatusID n @ '' from the db'')), w4)
               | (None, w4) \<Rightarrow>
                   (case call c (EvStatusToAPI (nStatusID n)) w4 of
                      (Some e, w5) \<Rightarrow>
                        (Inl (Err ''NotificationToapi: error converting status to api''), w5)
                    | (None, w5) \<Rightarrow>
                        (Inr \<lparr>apiID = nID n, apiType = type_string (nNotificationType n),
                              apiHasStatus = True\<rparr>, w5)))
            else
              (Inr \<lparr>apiID = nID n, apiType = type_string (nNotificationType n),
                    apiHasStatus = False\<rparr>, w3))))"

section \<open>Creating notifications\<close>

definition getNotifyLockURI ::
  "NotificationType \<Rightarrow> Account \<Rightarrow> Account \<Rightarrow> string \<Rightarrow> string" where
  "getNotifyLockURI notificationType targetAccount originAccount statusID =
     ''notification:?''
     @ (''type='' @ type_string notificationType)
     @ (''&target='' @ aURI targetAccount)
     @ (''&origin='' @ aURI originAccount)
     @ (if statusID \<noteq> [] then ''&statusID='' @ statusID else [])"

text \<open>
  \<open>Surface.Notify\<close>. The result is \<open>None\<close> when the call never returns (it waits for a
  lock that is held), and otherwise the returned error with the world after the call.
  \<open>unlock\<close> is wrapped in \<open>util.DoOnce\<close> and deferred: every return after the lock is
  taken releases it once, and a return after the explicit \<open>unlock()\<close> releases nothing.
\<close>

definition Notify ::
  "collab \<Rightarrow> NotificationType \<Rightarrow> Account \<Rightarrow> Account \<Rightarrow> string \<Rightarrow> world
     \<Rightarrow> (err option \<times> world) option" where
  "Notify c notificationType targetAccount originAccount statusID w =
     (if aIsRemote targetAccount then Some (None, w)
      else
        let lockURI = getNotifyLockURI notificationType targetAccount originAccount statusID in
        case Lock lockURI w of
          None \<Rightarrow> None
        | Some w1 \<Rightarrow>
        (case GetNotification c notificationType (aID targetAccount) (aID originAccount)
                statusID w1 of
           (Inr existing, w2) \<Rightarrow> Some (None, Unlock lockURI w2)
         | (Inl e, w2) \<Rightarrow>
             if \<not> is_ErrNoEntries e then
               Some (Some (Wrap ''error checking existence of notification'' e),
                     Unlock lockURI w2)
             else
               let notif = \<lparr>nID = NewULID c (ulids w2),
                            nNotificationType = notificationType,
                            nTargetAccountID = aID targetAccount,
                            nTargetAccount = Some targetAccount,
                            nOriginAccountID = aID originAccount,
                            nOriginAccount = Some originAccount,
                            nStatusID = statusID\<rparr>;
                   w3 = w2\<lparr>ulids := Suc (ulids w2)\<rparr>
               in
               (case PutNotification c notif w3 of
                  (Some e, w4) \<Rightarrow>
                    Some (Some (Wrap ''error putting notification in database'' e),
                          Unlock lockURI w4)
                | (None, w4) \<Rightarrow>
                    let w5 = Unlock lockURI w4 in
                    (case call c (EvGetFilters (aID targetAccount)) w5 of
                       (Some e, w6) \<Rightarrow>
                         Some (Some (Wrap (''couldn't retrieve filters for account ''
                                           @ aID targetAccount) e), w6)
                     | (None, w6) \<Rightarrow>
                         (case NotificationToAPINotification c notif w6 of
                            (Inl e, w7) \<Rightarrow>
                              Some (Some (Wrap ''error converting notification to api representation'' e),
                                    w7)
                          | (Inr apiNotif, w7) \<Rightarrow>
                              Some (None, emit (EvStreamNotify (aID targetAccount) apiNotif) w7))))))"


text \<open>
  The number of stored notifications with the given type, target, origin and status.
\<close>

definition count_notifications ::
  "NotificationType \<Rightarrow> string \<Rightarrow> string \<Rightarrow> string \<Rightarrow> world \<Rightarrow> nat" where
  "count_notifications nt targetID originID statusID w =
     length (filter (notif_matches nt targetID originID statusID) (notifications w))"

section \<open>Concurrent calls of Notify\<close>

text \<open>
  Where a call of \<open>Notify\<close> stands: before the check of the target, waiting for the
  lock, holding the lock before the lookup, before the insertion, before the explicit
  \<open>unlock()\<close> (with the notification it has inserted), on the push path, returning
  with the deferred \<open>unlock\<close> still to run, and returned.
\<close>

datatype pc =
    AtEntry
  | AtLock
  | AtCheck
  | AtPut
  | AtUnlock Notification
  | AtPush Notification
  | AtReturn "err option"
  | Done "err option"

text \<open>
  One atomic step of a call of \<open>Notify\<close>: the same statements as in \<open>Notify\<close> above,
  one call to the lock registry or to storage at a time (the push path, which touches
  neither, is one step). \<open>None\<close> when the call cannot move: it waits for the lock, or
  it has returned.
\<close>

fun Notify_step ::
  "collab \<Rightarrow> NotificationType \<Rightarrow> Account \<Rightarrow> Account \<Rightarrow> string \<Rightarrow> pc \<Rightarrow> world
     \<Rightarrow> (pc \<times> world) option" where
  "Notify_step c notificationType targetAccount originAccount statusID AtEntry w =
     (if aIsRemote targetAccount then Some (Done None, w) else Some (AtLock, w))"
| "Notify_step c notificationType targetAccount originAccount statusID AtLock w =
     (case Lock (getNotifyLockURI notificationType targetAccount originAccount statusID) w of
        None \<Rightarrow> None
      | Some w1 \<Rightarrow> Some (AtCheck, w1))"
| "Notify_step c notificationType targetAccount originAccount statusID AtCheck w =
     (case GetNotification c notificationType (aID targetAccount) (aID originAccount)
             statusID w of
        (Inr existing, w2) \<Rightarrow> Some (AtReturn None, w2)
      | (Inl e, w2) \<Rightarrow>
          if \<not> is_ErrNoEntries e then
            Some (AtReturn (Some (Wrap ''error checking existence of notification'' e)), w2)
          else Some (AtPut, w2))"
| "Notify_step c notificationType targetAccount originAccount statusID AtPut w =
     (let notif = \<lparr>nID = NewULID c (ulids w),
                   nNotificationType = notificationType,
                   nTargetAccountID = aID targetAccount,
                   nTargetAccount = Some targetAccount,
                   nOriginAccountID = aID originAccount,
                   nOriginAccount = Some originAccount,
                   nStatusID = statusID\<rparr>;
          w3 = w\<lparr>ulids := Suc (ulids w)\<rparr>
      in
      case PutNotification c notif w3 of
        (Some e, w4) \<Rightarrow>
          Some (AtReturn (Some (Wrap ''error putting notification in database'' e)), w4)
      | (None, w4) \<Rightarrow> Some (AtUnlock notif, w4))"
| "Notify_step c notificationType targetAccount originAccount statusID (AtUnlock notif) w =
     Some (AtPush notif,
           Unlock (getNotifyLockURI notificationType targetAccount originAccount statusID) w)"
| "Notify_step c notificationType targetAccount originAccount statusID (AtPush notif) w =
     (case call c (EvGetFilters (aID targetAccount)) w of
        (Some e, w6) \<Rightarrow>
          Some (Done (Some (Wrap (''couldn't retrieve filters for account ''
                                  @ aID targetAccount) e)), w6)
      | (None, w6) \<Rightarrow>
          (case NotificationToAPINotification c notif w6 of
             (Inl e, w7) \<Rightarrow>
               Some (Done (Some (Wrap ''error converting notification to api representation'' e)),
                     w7)
           | (Inr apiNotif, w7) \<Rightarrow>
               Some (Done None, emit (EvStreamNotify (aID targetAccount) apiNotif) w7)))"
| "Notify_step c notificationType targetAccount originAccount statusID (AtReturn r) w =
     Some (Done r,
           Unlock (getNotifyLockURI notificationType targetAccount originAccount statusID) w)"
| "Notify_step c notificationType targetAccount originAccount statusID (Done r) w = None"

text \<open>One worker, running alone for at most \<open>n\<close> steps.\<close>

fun Notify_steps ::
  "nat \<Rightarrow> collab \<Rightarrow> NotificationType \<Rightarrow> Account \<Rightarrow> Account \<Rightarrow> string \<Rightarrow> pc \<times> world
     \<Rightarrow> pc \<times> world" where
  "Notify_steps 0 c nt target origin statusID s = s"
| "Notify_steps (Suc n) c nt target origin statusID (p, w) =
     (case Notify_step c nt target origin statusID p w of
        None \<Rightarrow> (p, w)
      | Some s' \<Rightarrow> Notify_steps n c nt target origin statusID s')"

text \<open>
  Workers that call \<open>Notify\<close> with the same parameters at the same time, each with its
  own collaborators' behaviour, sharing the world. A schedule names the worker that
  takes the next step; a worker that cannot move is passed over.
\<close>

type_synonym workers = "(collab \<times> pc) list"

definition sys_step ::
  "NotificationType \<Rightarrow> Account \<Rightarrow> Account \<Rightarrow> string \<Rightarrow> nat \<Rightarrow> workers \<times> world
     \<Rightarrow> workers \<times> world" where
  "sys_step nt target origin statusID i s =
     (case s of (ws, w) \<Rightarrow>
        if i < length ws then
          (case ws ! i of (c, p) \<Rightarrow>
             (case Notify_step c nt target origin statusID p w of
                None \<Rightarrow> (ws, w)
              | Some (p', w') \<Rightarrow> (ws[i := (c, p')], w')))
        else (ws, w))"

fun run_schedule ::
  "NotificationType \<Rightarrow> Account \<Rightarrow> Account \<Rightarrow> string \<Rightarrow> nat list \<Rightarrow> workers \<times> world
     \<Rightarrow> workers \<times> world" where
  "run_schedule nt target origin statusID [] s = s"
| "run_schedule nt target origin statusID (i # sched) s =
     run_schedule nt target origin statusID sched (sys_step nt target origin statusID i s)"

text \<open>The places at which a call holds the lock of its key.\<close>

fun holds_lock :: "pc \<Rightarrow> bool" where
  "holds_lock AtCheck = True"
| "holds_lock AtPut = True"
| "holds_lock (AtUnlock n) = True"
| "holds_lock (AtReturn r) = True"
| "holds_lock p = False"

text \<open>
  What the lock maintains: at most one worker holds the lock, the lock is held exactly
  when a worker holds it, at most one notification is stored for the key, and none is
  stored while a worker is about to insert one.
\<close>

definition dedup_invariant ::
  "NotificationType \<Rightarrow> Account \<Rightarrow> Account \<Rightarrow> string \<Rightarrow> workers \<times> world \<Rightarrow> bool" where
  "dedup_invariant nt target origin statusID s \<longleftrightarrow>
     (case s of (ws, w) \<Rightarrow>
        (\<forall>i j. i < length ws \<and> j < length ws \<and> holds_lock (snd (ws ! i)) \<and>
               holds_lock (snd (ws ! j)) \<longrightarrow> i = j) \<and>
        (getNotifyLockURI nt target origin statusID \<in> set (held w)
           \<longleftrightarrow> (\<exists>i < length ws. holds_lock (snd (ws ! i)))) \<and>
        count_notifications nt (aID target) (aID origin) statusID w \<le> 1 \<and>
        (\<forall>i < length ws. snd (ws ! i) = AtPut \<longrightarrow>
           count_notifications nt (aID target) (aID origin) statusID w = 0))"

text \<open>Calls of \<open>Notify\<close> with the same parameters, one after the other.\<close>

fun Notify_calls ::
  "collab list \<Rightarrow> NotificationType \<Rightarrow> Account \<Rightarrow> Account \<Rightarrow> string \<Rightarrow> world \<Rightarrow> world option" where
  "Notify_calls [] nt target origin statusID w = Some w"
| "Notify_calls (c # cs) nt target origin statusID w =
     (case Notify c nt target origin statusID w of
        None \<Rightarrow> None
      | Some (r, w') \<Rightarrow> Notify_calls cs nt target origin statusID w')"


section \<open>The notification surface\<close>

text \<open>
  The body of the loop of \<open>Surface.notifyMentions\<close> for one mention: the errors
  appended so far are threaded through, and \<open>continue\<close> returns them.
\<close>

definition notifyMention ::
  "collab \<Rightarrow> Status \<Rightarrow> Mention \<Rightarrow> err list \<Rightarrow> world \<Rightarrow> (err list \<times> world) option" where
  "notifyMention c status mention errs w =
     (case Populate c (''mention '' @ mID mention) w of
        (Some e, w1) \<Rightarrow>
          Some (errs @ [Wrap (''error populating mention '' @ mID mention) e], w1)
      | (None, w1) \<Rightarrow>
          if aIsRemote (mTargetAccount mention) then Some (errs, w1)
          else
            (case IsThreadMutedByAccount c (sThreadID status) (mTargetAccountID mention) w1 of
               (Inl e, w2) \<Rightarrow>
                 Some (errs @ [Wrap (''error checking status thread mute '' @ sThreadID status) e],
                       w2)
             | (Inr muted, w2) \<Rightarrow>
                 if muted then Some (errs, w2)
                 else
                   (case Notify c NotificationMention (mTargetAccount mention)
                           (mOriginAccount mention) (mStatusID mention) w2 of
                      None \<Rightarrow> None
                    | Some (Some e, w3) \<Rightarrow>
                        Some (errs @ [Wrap (''error notifying mention target ''
                                            @ mTargetAccountID mention) e], w3)
                    | Some (None, w3) \<Rightarrow> Some (errs, w3))))"

fun notifyMentions_loop ::
  "collab \<Rightarrow> Status \<Rightarrow> Mention list \<Rightarrow> err list \<Rightarrow> world \<Rightarrow> (err list \<times> world) option" where
  "notifyMentions_loop c status [] errs w = Some (errs, w)"
| "notifyMentions_loop c status (mention # rest) errs w =
     (case notifyMention c status mention errs w of
        None \<Rightarrow> None
      | Some (errs', w') \<Rightarrow> notifyMentions_loop c status rest errs' w')"

definition notifyMentions :: "collab \<Rightarrow> Status \<Rightarrow> world \<Rightarrow> (err option \<times> world) option" where
  "notifyMentions c status w =
     (case notifyMentions_loop c status (sMentions status) [] w of
        None \<Rightarrow> None
      | Some (errs, w') \<Rightarrow> Some (Combine errs, w'))"


definition notifyFave :: "collab \<Rightarrow> StatusFave \<Rightarrow> world \<Rightarrow> (err option \<times> world) option" where
  "notifyFave c fave w =
     (if fTargetAccountID fave = fAccountID fave then Some (None, w)
      else
        (case Populate c (''fave '' @ fID fave) w of
           (Some e, w1) \<Rightarrow> Some (Some (Wrap (''error populating fave '' @ fID fave) e), w1)
         | (None, w1) \<Rightarrow>
             if aIsRemote (fTargetAccount fave) then Some (None, w1)
             else
               (case IsThreadMutedByAccount c (sThreadID (fStatus fave))
                       (fTargetAccountID fave) w1 of
                  (Inl e, w2) \<Rightarrow>
                    Some (Some (Wrap (''error checking status thread mute '' @ fStatusID fave) e),
                          w2)
                | (Inr muted, w2) \<Rightarrow>
                    if muted then Some (None, w2)
                    else
                      (case Notify c NotificationFave (fTargetAccount fave) (fAccount fave)
                              (fStatusID fave) w2 of
                         None \<Rightarrow> None
                       | Some (Some e, w3) \<Rightarrow>
                           Some (Some (Wrap (''error notifying status author ''
                                             @ fTargetAccountID fave) e), w3)
                       | Some (None, w3) \<Rightarrow> Some (None, w3)))))"

definition notifyAnnounce :: "collab \<Rightarrow> Status \<Rightarrow> world \<Rightarrow> (err option \<times> world) option" where
  "notifyAnnounce c status w =
     (if sBoostOfID status = [] then Some (None, w)
      else if sBoostOfAccountID status = sAccountID status then Some (None, w)
      else
        (case Populate c (''status '' @ sID status) w of
           (Some e, w1) \<Rightarrow> Some (Some (Wrap (''error populating status '' @ sID status) e), w1)
         | (None, w1) \<Rightarrow>
             if aIsRemote (sBoostOfAccount status) then Some (None, w1)
             else
               (case IsThreadMutedByAccount c (sBoostOfThreadID status)
                       (sBoostOfAccountID status) w1 of
                  (Inl e, w2) \<Rightarrow>
                    Some (Some (Wrap (''error checking status thread mute ''
                                      @ sBoostOfID status) e), w2)
                | (Inr muted, w2) \<Rightarrow>
                    if muted then Some (None, w2)
                    else
                      (case Notify c NotificationReblog (sBoostOfAccount status)
                              (sAccount status) (sID status) w2 of
                         None \<Rightarrow> None
                       | Some (Some e, w3) \<Rightarrow>
                           Some (Some (Wrap (''error notifying status author ''
                                             @ sBoostOfAccountID status) e), w3)
                       | Some (None, w3) \<Rightarrow> Some (None, w3)))))"


section \<open>Messages to the workers\<close>

record Block =
  bID :: string
  bAccountID :: string
  bTargetAccountID :: string

text \<open>
  A poll vote with the poll it belongs to and the status of that poll, as
  \<open>PopulatePollVote\<close> and \<open>PopulatePoll\<close> leave them: \<open>pvPollStatusID\<close> is
  \<open>vote.Poll.StatusID\<close> and \<open>pvStatusLocal\<close> is \<open>*vote.Poll.Status.Local\<close>.
\<close>

record PollVote =
  pvID :: string
  pvPollID :: string
  pvPollStatusID :: string
  pvStatusLocal :: bool

text \<open>A time is a number; the zero time (an unset field) is \<open>0\<close>.\<close>

record Move =
  mvID :: string
  mvAttemptedAt :: nat
  mvSucceededAt :: nat

text \<open>
  The \<open>GTSModel\<close> field of a message is an \<open>interface{}\<close>: one of the models below, or
  a value of a type the handlers here do not cast to, given by the name of its type.
\<close>

datatype GTSModel =
    NoModel
  | StatusModel Status
  | BlockModel Block
  | PollVoteModel PollVote
  | OtherModel string

text \<open>The \<open>%T\<close> of a model in an error message.\<close>

fun model_type :: "GTSModel \<Rightarrow> string" where
  "model_type NoModel = ''<nil>''"
| "model_type (StatusModel x) = ''*gtsmodel.Status''"
| "model_type (BlockModel x) = ''*gtsmodel.Block''"
| "model_type (PollVoteModel x) = ''*gtsmodel.PollVote''"
| "model_type (OtherModel t) = t"

text \<open>
  \<open>messages.FromClientAPI\<close> and \<open>messages.FromFediAPI\<close>, with the accounts set (the
  dispatchers read their user names before they dispatch). \<open>cmOriginMove\<close> is
  \<open>cMsg.Origin.Move\<close>, which the Move handler reads and writes through the pointer.
\<close>

record FromClientAPI =
  cmAPObjectType :: string
  cmAPActivityType :: string
  cmGTSModel :: GTSModel
  cmOrigin :: Account
  cmTarget :: Account
  cmOriginMove :: Move

record FromFediAPI =
  fmAPObjectType :: string
  fmAPActivityType :: string
  fmGTSModel :: GTSModel
  fmRequesting :: Account
  fmReceiving :: Account

section \<open>Handlers of the federation API\<close>



text \<open>
  \<open>fediAPI.DeleteStatus\<close>. The status is populated when possible (no rows is not an
  error here), and the attachments are deleted with it.
\<close>

definition fediAPI_DeleteStatus ::
  "collab \<Rightarrow> FromFediAPI \<Rightarrow> world \<Rightarrow> err option \<times> world" where
  "fediAPI_DeleteStatus c fMsg w =
     (case fmGTSModel fMsg of
        StatusModel status \<Rightarrow>
          (case Populate c (''status '' @ sID status) w of
             (populated, w1) \<Rightarrow>
               if (case populated of Some e \<Rightarrow> \<not> is_ErrNoEntries e | None \<Rightarrow> False) then
                 (Some (Wrap ''db error populating status''
                          (case populated of Some e \<Rightarrow> e | None \<Rightarrow> ErrNoEntries)), w1)
               else
                 let w2 = emit (EvQueueDelete DeliveryQueue ''ObjectID'' (sURI status)) w1;
                     w3 = emit (EvQueueDelete DeliveryQueue ''TargetID'' (sURI status)) w2;
                     w4 = emit (EvQueueDelete ClientQueue ''TargetURI'' (sURI status)) w3;
                     w5 = emit (EvQueueDelete FederatorQueue ''TargetURI'' (sURI status)) w4;
                     w6 = logged ''error wiping status''
                            (call c (EvWipeStatus (sID status) True) w5);
                     w7 = logged ''error updating account stats''
                            (call c (EvStatsUpdate ''decrementStatusesCount''
                                       (aID (fmRequesting fMsg))) w6);
                     w8 = (if sInReplyToID status \<noteq> []
                           then emit (EvInvalidateStatus (sInReplyToID status)) w7 else w7)
                 in (None, w8))
      | other \<Rightarrow>
          (Some (Err (model_type other @ '' not parseable as *gtsmodel.Status'')), w))"

section \<open>Handlers of the client API\<close>


text \<open>\<open>clientAPI.DeleteStatus\<close>: as for the federation API, but the attachments are kept.\<close>

definition clientAPI_DeleteStatus ::
  "collab \<Rightarrow> FromClientAPI \<Rightarrow> world \<Rightarrow> err option \<times> world" where
  "clientAPI_DeleteStatus c cMsg w =
     (case cmGTSModel cMsg of
        StatusModel status \<Rightarrow>
          (case Populate c (''status '' @ sID status) w of
             (populated, w1) \<Rightarrow>
               if (case populated of Some e \<Rightarrow> \<not> is_ErrNoEntries e | None \<Rightarrow> False) then
                 (Some (Wrap ''db error populating status''
                          (case populated of Some e \<Rightarrow> e | None \<Rightarrow> ErrNoEntries)), w1)
               else
                 let w2 = emit (EvQueueDelete DeliveryQueue ''ObjectID'' (sURI status)) w1;
                     w3 = emit (EvQueueDelete DeliveryQueue ''TargetID'' (sURI status)) w2;
                     w4 = emit (EvQueueDelete ClientQueue ''TargetURI'' (sURI status)) w3;
                     w5 = emit (EvQueueDelete FederatorQueue ''TargetURI'' (sURI status)) w4;
                     w6 = logged ''error wiping status''
                            (call c (EvWipeStatus (sID status) False) w5);
                     w7 = logged ''error updating account stats''
                            (call c (EvStatsUpdate ''decrementStatusesCount''
                                       (aID (cmOrigin cMsg))) w6);
                     w8 = (if sInReplyToID status \<noteq> []
                           then emit (EvInvalidateStatus (sInReplyToID status)) w7 else w7);
                     w9 = logged ''error federating status delete''
                            (call c (EvFederate ''DeleteStatus'' (sID status)) w8)
                 in (None, w9))
      | other \<Rightarrow>
          (Some (Err (model_type other @ '' not parseable as *gtsmodel.Status'')), w))"

text \<open>
  \<open>clientAPI.MoveAccount\<close>. The handler writes \<open>SucceededAt\<close> through the pointer
  \<open>cMsg.Origin.Move\<close>; the model returns the move as the handler leaves it.
  \<open>EvUpdateMove i t\<close> is the storage update of the column \<open>succeeded_at\<close> of move \<open>i\<close>
  to \<open>t\<close>.
\<close>

definition clientAPI_MoveAccount ::
  "collab \<Rightarrow> FromClientAPI \<Rightarrow> world \<Rightarrow> err option \<times> Move \<times> world" where
  "clientAPI_MoveAccount c cMsg w =
     (let move = cmOriginMove cMsg;
          w1 = emit (EvRedirectFollowers (aID (cmOrigin cMsg)) (aID (cmTarget cMsg))) w in
      case Populate c (''move '' @ mvID move) w1 of
        (Some e, w2) \<Rightarrow> (Some (Wrap ''error populating Move'' e), move, w2)
      | (None, w2) \<Rightarrow>
      (case call c (EvFederate ''MoveAccount'' (aID (cmOrigin cMsg))) w2 of
         (Some e, w3) \<Rightarrow> (Some (Wrap ''error federating account move'' e), move, w3)
       | (None, w3) \<Rightarrow>
           let move' = move\<lparr>mvSucceededAt := mvAttemptedAt move\<rparr> in
           (case call c (EvUpdateMove (mvID move') (mvSucceededAt move')) w3 of
              (Some e, w4) \<Rightarrow> (Some (Wrap ''error marking move as successful'' e), move', w4)
            | (None, w4) \<Rightarrow> (None, move', w4))))"


section \<open>The dispatchers\<close>

text \<open>
  The activity and object types of package \<open>ap\<close> (not among the sources) are strings,
  with their ActivityStreams names.
\<close>

definition ActivityCreate :: string where "ActivityCreate = ''Create''"
definition ActivityUpdate :: string where "ActivityUpdate = ''Update''"
definition ActivityAccept :: string where "ActivityAccept = ''Accept''"
definition ActivityReject :: string where "ActivityReject = ''Reject''"
definition ActivityUndo :: string where "ActivityUndo = ''Undo''"
definition ActivityDelete :: string where "ActivityDelete = ''Delete''"
definition ActivityFlag :: string where "ActivityFlag = ''Flag''"
definition ActivityMove :: string where "ActivityMove = ''Move''"
definition ActivityFollow :: string where "ActivityFollow = ''Follow''"
definition ActivityLike :: string where "ActivityLike = ''Like''"
definition ActivityAnnounce :: string where "ActivityAnnounce = ''Announce''"
definition ActivityBlock :: string where "ActivityBlock = ''Block''"
definition ActivityQuestion :: string where "ActivityQuestion = ''Question''"
definition ObjectNote :: string where "ObjectNote = ''Note''"
definition ObjectProfile :: string where "ObjectProfile = ''Profile''"
definition ActorPerson :: string where "ActorPerson = ''Person''"

text \<open>The handlers of the client API, by name.\<close>

datatype clientAPI_handler =
    CCreateAccount | CCreateStatus | CCreatePollVote | CCreateFollowReq | CCreateLike
  | CCreateAnnounce | CCreateBlock | CUpdateStatus | CUpdateAccount | CUpdateReport
  | CAcceptFollow | CAcceptAccount | CRejectFollowRequest | CRejectAccount
  | CUndoFollow | CUndoBlock | CUndoFave | CUndoAnnounce
  | CDeleteStatus | CDeleteAccount | CReportAccount | CMoveAccount

text \<open>The handlers of the federation API, by name.\<close>

datatype fediAPI_handler =
    FCreateStatus | FCreateFollowReq | FCreateLike | FCreateAnnounce | FCreateBlock
  | FCreateFlag | FCreatePollVote | FUpdateStatus | FUpdateAccount | FAcceptFollow
  | FDeleteStatus | FDeleteAccount | FMoveAccount

text \<open>
  The result of a handler as the dispatcher sees it: \<open>None\<close> when the handler never
  returns, otherwise its error and the world it leaves.
\<close>

type_synonym outcome = "(err option \<times> world) option"

text \<open>
  \<open>Processor.ProcessFromClientAPI\<close>. \<open>run h\<close> is the handler named \<open>h\<close>. A \<open>switch\<close>
  on the object type with no matching case falls out of both switches, to the final
  \<open>return\<close>.
\<close>

definition ProcessFromClientAPI ::
  "(clientAPI_handler \<Rightarrow> FromClientAPI \<Rightarrow> world \<Rightarrow> outcome) \<Rightarrow> FromClientAPI \<Rightarrow> world \<Rightarrow> outcome" where
  "ProcessFromClientAPI run cMsg w =
     (let a = cmAPActivityType cMsg; ob = cmAPObjectType cMsg;
          w0 = emit (EvLog ''processing from client API'') w;
          unhandled = Some (Some (Err (''unhandled: '' @ a @ '' '' @ ob)), w0)
      in
      if a = ActivityCreate then
        (if ob = ObjectProfile \<or> ob = ActorPerson then run CCreateAccount cMsg w0
         else if ob = ObjectNote then run CCreateStatus cMsg w0
         else if ob = ActivityQuestion then run CCreatePollVote cMsg w0
         else if ob = ActivityFollow then run CCreateFollowReq cMsg w0
         else if ob = ActivityLike then run CCreateLike cMsg w0
         else if ob = ActivityAnnounce then run CCreateAnnounce cMsg w0
         else if ob = ActivityBlock then run CCreateBlock cMsg w0
         else unhandled)
      else if a = ActivityUpdate then
        (if ob = ObjectNote then run CUpdateStatus cMsg w0
         else if ob = ObjectProfile \<or> ob = ActorPerson then run CUpdateAccount cMsg w0
         else if ob = ActivityFlag then run CUpdateReport cMsg w0
         else unhandled)
      else if a = ActivityAccept then
        (if ob = ActivityFollow then run CAcceptFollow cMsg w0
         else if ob = ObjectProfile \<or> ob = ActorPerson then run CAcceptAccount cMsg w0
         else unhandled)
      else if a = ActivityReject then
        (if ob = ActivityFollow then run CRejectFollowRequest cMsg w0
         else if ob = ObjectProfile \<or> ob = ActorPerson then run CRejectAccount cMsg w0
         else unhandled)
      else if a = ActivityUndo then
        (if ob = ActivityFollow then run CUndoFollow cMsg w0
         else if ob = ActivityBlock then run CUndoBlock cMsg w0
         else if ob = ActivityLike then run CUndoFave cMsg w0
         else if ob = ActivityAnnounce then run CUndoAnnounce cMsg w0
         else unhandled)
      else if a = ActivityDelete then
        (if ob = ObjectNote then run CDeleteStatus cMsg w0
         else if ob = ObjectProfile \<or> ob = ActorPerson then run CDeleteAccount cMsg w0
         else unhandled)
      else if a = ActivityFlag then
        (if ob = ObjectProfile then run CReportAccount cMsg w0
         else unhandled)
      else if a = ActivityMove then
        (if ob = ObjectProfile \<or> ob = ActorPerson then run CMoveAccount cMsg w0
         else unhandled)
      else unhandled)"

text \<open>\<open>Processor.ProcessFromFediAPI\<close>.\<close>

definition ProcessFromFediAPI ::
  "(fediAPI_handler \<Rightarrow> FromFediAPI \<Rightarrow> world \<Rightarrow> outcome) \<Rightarrow> FromFediAPI \<Rightarrow> world \<Rightarrow> outcome" where
  "ProcessFromFediAPI run fMsg w =
     (let a = fmAPActivityType fMsg; ob = fmAPObjectType fMsg;
          w0 = emit (EvLog ''processing from fedi API'') w;
          unhandled = Some (Some (Err (''unhandled: '' @ a @ '' '' @ ob)), w0)
      in
      if a = ActivityCreate then
        (if ob = ObjectNote then run FCreateStatus fMsg w0
         else if ob = ActivityFollow then run FCreateFollowReq fMsg w0
         else if ob = ActivityLike then run FCreateLike fMsg w0
         else if ob = ActivityAnnounce then run FCreateAnnounce fMsg w0
         else if ob = ActivityBlock then run FCreateBlock fMsg w0
         else if ob = ActivityFlag then run FCreateFlag fMsg w0
         else if ob = ActivityQuestion then run FCreatePollVote fMsg w0
         else unhandled)
      else if a = ActivityUpdate then
        (if ob = ObjectNote then run FUpdateStatus fMsg w0
         else if ob = ObjectProfile then run FUpdateAccount fMsg w0
         else unhandled)
      else if a = ActivityAccept then
        (if ob = ActivityFollow then run FAcceptFollow fMsg w0
         else unhandled)
      else if a = ActivityDelete then
        (if ob = ObjectNote then run FDeleteStatus fMsg w0
         else if ob = ObjectProfile then run FDeleteAccount fMsg w0
         else unhandled)
      else if a = ActivityMove then
        (if ob = ObjectProfile then run FMoveAccount fMsg w0
         else unhandled)
      else unhandled)"

text \<open>
  The handler sets: the pairs of activity type and object type that have a case in the
  switches above, each with the handler of that case.
\<close>

definition clientAPI_handlers :: "((string \<times> string) \<times> clientAPI_handler) list" where
  "clientAPI_handlers =
     [((ActivityCreate, ObjectProfile), CCreateAccount),
      ((ActivityCreate, ActorPerson), CCreateAccount),
      ((ActivityCreate, ObjectNote), CCreateStatus),
      ((ActivityCreate, ActivityQuestion), CCreatePollVote),
      ((ActivityCreate, ActivityFollow), CCreateFollowReq),
      ((ActivityCreate, ActivityLike), CCreateLike),
      ((ActivityCreate, ActivityAnnounce), CCreateAnnounce),
      ((ActivityCreate, ActivityBlock), CCreateBlock),
      ((ActivityUpdate, ObjectNote), CUpdateStatus),
      ((ActivityUpdate, ObjectProfile), CUpdateAccount),
      ((ActivityUpdate, ActorPerson), CUpdateAccount),
      ((ActivityUpdate, ActivityFlag), CUpdateReport),
      ((ActivityAccept, ActivityFollow), CAcceptFollow),
      ((ActivityAccept, ObjectProfile), CAcceptAccount),
      ((ActivityAccept, ActorPerson), CAcceptAccount),
      ((ActivityReject, ActivityFollow), CRejectFollowRequest),
      ((ActivityReject, ObjectProfile), CRejectAccount),
      ((ActivityReject, ActorPerson), CRejectAccount),
      ((ActivityUndo, ActivityFollow), CUndoFollow),
      ((ActivityUndo, ActivityBlock), CUndoBlock),
      ((ActivityUndo, ActivityLike), CUndoFave),
      ((ActivityUndo, ActivityAnnounce), CUndoAnnounce),
      ((ActivityDelete, ObjectNote), CDeleteStatus),
      ((ActivityDelete, ObjectProfile), CDeleteAccount),
      ((ActivityDelete, ActorPerson), CDeleteAccount),
      ((ActivityFlag, ObjectProfile), CReportAccount),
      ((ActivityMove, ObjectProfile), CMoveAccount),
      ((ActivityMove, ActorPerson), CMoveAccount)]"

definition fediAPI_handlers :: "((string \<times> string) \<times> fediAPI_handler) list" where
  "fediAPI_handlers =
     [((ActivityCreate, ObjectNote), FCreateStatus),
      ((ActivityCreate, ActivityFollow), FCreateFollowReq),
      ((ActivityCreate, ActivityLike), FCreateLike),
      ((ActivityCreate, ActivityAnnounce), FCreateAnnounce),
      ((ActivityCreate, ActivityBlock), FCreateBlock),
      ((ActivityCreate, ActivityFlag), FCreateFlag),
      ((ActivityCreate, ActivityQuestion), FCreatePollVote),
      ((ActivityUpdate, ObjectNote), FUpdateStatus),
      ((ActivityUpdate, ObjectProfile), FUpdateAccount),
      ((ActivityAccept, ActivityFollow), FAcceptFollow),
      ((ActivityDelete, ObjectNote), FDeleteStatus),
      ((ActivityDelete, ObjectProfile), FDeleteAccount),
      ((ActivityMove, ObjectProfile), FMoveAccount)]"


section \<open>Reading the trace\<close>

text \<open>The events that a run from world \<open>w\<close> to world \<open>w'\<close> has added to the trace.\<close>

definition new_events :: "world \<Rightarrow> world \<Rightarrow> event list" where
  "new_events w w' = drop (length (trace w)) (trace w')"

text \<open>
  \<open>all_before as b evs\<close>: when \<open>b\<close> occurs in \<open>evs\<close>, every event of \<open>as\<close> occurs before
  the first occurrence of \<open>b\<close>.
\<close>

definition all_before :: "event list \<Rightarrow> event \<Rightarrow> event list \<Rightarrow> bool" where
  "all_before as b evs \<longleftrightarrow>
     (b \<in> set evs \<longrightarrow> set as \<subseteq> set (takeWhile (\<lambda>e. e \<noteq> b) evs))"

text \<open>The calls of a trace: everything but the log lines.\<close>

definition calls :: "event list \<Rightarrow> event list" where
  "calls evs = filter (\<lambda>ev. case ev of EvLog m \<Rightarrow> False | _ \<Rightarrow> True) evs"

section \<open>A small instance\<close>

text \<open>
  Two local accounts and a remote one, collaborators that never fail, and an empty
  world: the concrete inputs on which the properties below are exercised.
\<close>

definition alice :: Account where
  "alice = \<lparr>aID = ''01ALICE'', aURI = ''https://example.org/users/alice'', aIsRemote = False\<rparr>"

definition bob :: Account where
  "bob = \<lparr>aID = ''01BOB'', aURI = ''https://example.org/users/bob'', aIsRemote = False\<rparr>"

definition carol :: Account where
  "carol = \<lparr>aID = ''01CAROL'', aURI = ''https://remote.example/users/carol'', aIsRemote = True\<rparr>"

definition reliable :: collab where
  "reliable =
     \<lparr>GetNotification_fails = (\<lambda>nt t ogn s. None),
      PutNotification_fails = (\<lambda>n. None),
      DeleteNotificationByID_fails = (\<lambda>i. None),
      IsThreadMutedByAccount_fails = (\<lambda>t a. None),
      fails = (\<lambda>ev. None),
      GetAccountByID_result = (\<lambda>i. Inl ErrNoEntries),
      NewULID = (\<lambda>k. ''01NOTIF'' @ replicate k (CHR ''X''))\<rparr>"

definition empty_world :: world where
  "empty_world = \<lparr>notifications = [], thread_mutes = [], held = [], ulids = 0, trace = []\<rparr>"

text \<open>A status by Alice in thread \<open>T1\<close> that mentions Bob, and Bob's boost and fave of it.\<close>

definition bob_mention :: Mention where
  "bob_mention =
     \<lparr>mID = ''01MENTION'', mStatusID = ''01STATUS'', mTargetAccountID = ''01BOB'',
      mTargetAccount = bob, mOriginAccount = alice\<rparr>"

definition alice_status :: Status where
  "alice_status =
     \<lparr>sID = ''01STATUS'', sURI = ''https://example.org/statuses/01STATUS'',
      sAccountID = ''01ALICE'', sAccount = alice, sThreadID = ''T1'', sInReplyToID = [],
      sBoostOfID = [], sBoostOfAccountID = [], sBoostOfAccount = alice,
      sBoostOfThreadID = [], sMentions = [bob_mention]\<rparr>"

definition bob_boost :: Status where
  "bob_boost =
     \<lparr>sID = ''01BOOST'', sURI = ''https://example.org/statuses/01BOOST'',
      sAccountID = ''01BOB'', sAccount = bob, sThreadID = ''T2'', sInReplyToID = [],
      sBoostOfID = ''01STATUS'', sBoostOfAccountID = ''01ALICE'', sBoostOfAccount = alice,
      sBoostOfThreadID = ''T1'', sMentions = []\<rparr>"

definition bob_fave :: StatusFave where
  "bob_fave =
     \<lparr>fID = ''01FAVE'', fAccountID = ''01BOB'', fAccount = bob,
      fTargetAccountID = ''01ALICE'', fTargetAccount = alice,
      fStatusID = ''01STATUS'', fStatus = alice_status\<rparr>"

definition bob_follows_alice :: Follow where
  "bob_follows_alice =
     \<lparr>foID = ''01FOLLOW'', foAccountID = ''01BOB'', foAccount = bob,
      foTargetAccountID = ''01ALICE'', foTargetAccount = alice\<rparr>"

text \<open>A world in which Alice and Bob have both muted thread \<open>T1\<close>.\<close>

definition muted_world :: world where
  "muted_world = empty_world\<lparr>thread_mutes := [(''T1'', ''01ALICE''), (''T1'', ''01BOB'')]\<rparr>"

text \<open>Messages: the deletion of Alice's status, from the federation API and from a client.\<close>

definition delete_note_fedi :: FromFediAPI where
  "delete_note_fedi =
     \<lparr>fmAPObjectType = ObjectNote, fmAPActivityType = ActivityDelete,
      fmGTSModel = StatusModel alice_status, fmRequesting = carol, fmReceiving = bob\<rparr>"

definition delete_note_client :: FromClientAPI where
  "delete_note_client =
     \<lparr>cmAPObjectType = ObjectNote, cmAPActivityType = ActivityDelete,
      cmGTSModel = StatusModel alice_status, cmOrigin = alice, cmTarget = alice,
      cmOriginMove = \<lparr>mvID = [], mvAttemptedAt = 0, mvSucceededAt = 0\<rparr>\<rparr>"

text \<open>Alice moves her account to Bob's; the move was attempted at time 1700000000.\<close>

definition move_msg :: FromClientAPI where
  "move_msg =
     \<lparr>cmAPObjectType = ObjectProfile, cmAPActivityType = ActivityMove,
      cmGTSModel = NoModel, cmOrigin = alice, cmTarget = bob,
      cmOriginMove = \<lparr>mvID = ''01MOVE'', mvAttemptedAt = 1700000000, mvSucceededAt = 0\<rparr>\<rparr>"

text \<open>Alice blocks Bob, and a remote vote in the poll of Alice's status.\<close>

definition alice_blocks_bob :: Block where
  "alice_blocks_bob = \<lparr>bID = ''01BLOCK'', bAccountID = ''01ALICE'', bTargetAccountID = ''01BOB''\<rparr>"

definition block_client :: FromClientAPI where
  "block_client =
     \<lparr>cmAPObjectType = ActivityBlock, cmAPActivityType = ActivityCreate,
      cmGTSModel = BlockModel alice_blocks_bob, cmOrigin = alice, cmTarget = bob,
      cmOriginMove = \<lparr>mvID = [], mvAttemptedAt = 0, mvSucceededAt = 0\<rparr>\<rparr>"

definition block_fedi :: FromFediAPI where
  "block_fedi =
     \<lparr>fmAPObjectType = ActivityBlock, fmAPActivityType = ActivityCreate,
      fmGTSModel = BlockModel alice_blocks_bob, fmRequesting = alice, fmReceiving = bob\<rparr>"

definition vote_fedi :: FromFediAPI where
  "vote_fedi =
     \<lparr>fmAPObjectType = ActivityQuestion, fmAPActivityType = ActivityCreate,
      fmGTSModel = PollVoteModel \<lparr>pvID = ''01VOTE'', pvPollID = ''01POLL'',
                                  pvPollStatusID = ''01STATUS'', pvStatusLocal = True\<rparr>,
      fmRequesting = carol, fmReceiving = alice\<rparr>"

text \<open>Collaborators of which exactly one call fails, with a genuine error.\<close>

definition failing :: "event \<Rightarrow> collab" where
  "failing bad = reliable\<lparr>fails := (\<lambda>ev. if ev = bad then Some (Err ''failure'') else None)\<rparr>"

text \<open>A world in which Alice has a notification of Bob's request to follow her.\<close>

definition requested_world :: world where
  "requested_world =
     empty_world\<lparr>notifications :=
       [\<lparr>nID = ''01REQUESTED'', nNotificationType = NotificationFollowRequest,
         nTargetAccountID = ''01ALICE'', nTargetAccount = None,
         nOriginAccountID = ''01BOB'', nOriginAccount = None, nStatusID = []\<rparr>]\<rparr>"

section \<open>Properties\<close>

lemmas ap_defs =
  ActivityCreate_def ActivityUpdate_def ActivityAccept_def ActivityReject_def
  ActivityUndo_def ActivityDelete_def ActivityFlag_def ActivityMove_def
  ActivityFollow_def ActivityLike_def ActivityAnnounce_def ActivityBlock_def
  ActivityQuestion_def ObjectNote_def ObjectProfile_def ActorPerson_def

lemmas instance_defs =
  alice_def bob_def carol_def reliable_def empty_world_def bob_mention_def
  alice_status_def bob_boost_def bob_fave_def bob_follows_alice_def muted_world_def
  delete_note_fedi_def delete_note_client_def move_msg_def failing_def
  alice_blocks_bob_def block_client_def block_fedi_def vote_fedi_def requested_world_def

subsection \<open>What a call leaves unchanged\<close>

lemma emit_fields [simp]:
  "notifications (emit e w) = notifications w"
  "thread_mutes (emit e w) = thread_mutes w"
  "held (emit e w) = held w"
  "ulids (emit e w) = ulids w"
  "trace (emit e w) = trace w @ [e]"
  by (simp_all add: emit_def)

lemma logged_fields [simp]:
  "notifications (logged msg (r, w)) = notifications w"
  "thread_mutes (logged msg (r, w)) = thread_mutes w"
  "held (logged msg (r, w)) = held w"
  "ulids (logged msg (r, w)) = ulids w"
  by (simp_all add: logged_def split: option.splits)

lemma new_events_append [simp]: "trace w' = trace w @ evs \<Longrightarrow> new_events w w' = evs"
  by (simp add: new_events_def)

lemma logged_trace:
  "trace (logged msg (r, w)) = trace w @ (case r of None \<Rightarrow> [] | Some e \<Rightarrow> [EvLog msg])"
  by (simp add: logged_def split: option.splits)

lemma calls_simps [simp]:
  "calls [] = []"
  "calls (xs @ ys) = calls xs @ calls ys"
  "calls (EvLog m # xs) = calls xs"
  "calls (EvWipeItems tline a b # xs) = EvWipeItems tline a b # calls xs"
  "calls (EvDeleteFollow a b # xs) = EvDeleteFollow a b # calls xs"
  "calls (EvDeleteFollowRequest a b # xs) = EvDeleteFollowRequest a b # calls xs"
  by (simp_all add: calls_def)

lemma NotificationToAPINotification_fields:
  assumes "NotificationToAPINotification c n w = (r, w')"
  shows "notifications w' = notifications w \<and> thread_mutes w' = thread_mutes w \<and>
         held w' = held w \<and> ulids w' = ulids w"
  using assms
  by (auto simp: NotificationToAPINotification_def GetAccountByID_def call_def
           split: option.splits sum.splits if_splits prod.splits)


lemma find_None_filter: "find P xs = None \<longleftrightarrow> filter P xs = []"
  by (induction xs) auto


lemma Notify_effect:
  assumes "Notify c nt target origin statusID w = Some (r, w')"
  shows "thread_mutes w' = thread_mutes w \<and> held w' = held w \<and>
         (notifications w' = notifications w \<or>
          (\<exists>n. notifications w' = notifications w @ [n] \<and>
               notif_matches nt (aID target) (aID origin) statusID n \<and>
               find (notif_matches nt (aID target) (aID origin) statusID) (notifications w) = None))"
  using assms
  apply (auto simp: Notify_def Lock_def Unlock_def GetNotification_def PutNotification_def call_def Let_def notif_matches_def
           split: option.splits sum.splits if_splits prod.splits dest!: NotificationToAPINotification_fields)
  done



subsection \<open>Self-interactions\<close>

text \<open>
  Claim C10. Self-interactions never produce notifications: \<open>notifyFave\<close> returns
  success, with no call to storage or to anything else, when the account of the fave
  is the author of the faved status; \<open>notifyAnnounce\<close> does so when the status is not
  a boost (\<open>BoostOfID\<close> is empty) or when the boosting account is the author of the
  boosted status.
\<close>

theorem self_interactions_not_notified:
  "(fTargetAccountID fave = fAccountID fave \<longrightarrow> notifyFave c fave w = Some (None, w)) \<and>
   (sBoostOfID status = [] \<or> sBoostOfAccountID status = sAccountID status \<longrightarrow>
      notifyAnnounce c status w = Some (None, w))"
  by (simp add: notifyFave_def notifyAnnounce_def)

theorem self_interactions_not_notified_witness:
  "notifyFave reliable (bob_fave\<lparr>fTargetAccountID := ''01BOB''\<rparr>) empty_world
     = Some (None, empty_world) \<and>
   notifyAnnounce reliable alice_status empty_world = Some (None, empty_world) \<and>
   notifyAnnounce reliable (bob_boost\<lparr>sBoostOfAccountID := ''01BOB''\<rparr>) empty_world
     = Some (None, empty_world)"
  using self_interactions_not_notified
          [of "bob_fave\<lparr>fTargetAccountID := ''01BOB''\<rparr>" reliable empty_world alice_status]
        self_interactions_not_notified
          [of bob_fave reliable empty_world "bob_boost\<lparr>sBoostOfAccountID := ''01BOB''\<rparr>"]
  by (simp add: instance_defs)


subsection \<open>Muted threads\<close>

text \<open>
  One round of the loop of \<open>notifyMentions\<close> adds at most one notification, for the
  mentioned account, and only when that account has not muted the thread.
\<close>

lemma notifyMention_effect:
  assumes "notifyMention c status m errs w = Some (errs', w')"
  shows "thread_mutes w' = thread_mutes w \<and>
         (notifications w' = notifications w \<or>
          (\<exists>n. notifications w' = notifications w @ [n] \<and>
               nTargetAccountID n = aID (mTargetAccount m) \<and>
               (sThreadID status, mTargetAccountID m) \<notin> set (thread_mutes w)))"
  using assms
  by (auto simp: notifyMention_def Populate_def call_def IsThreadMutedByAccount_def Let_def
                 notif_matches_def
           split: option.splits sum.splits if_splits prod.splits
           dest!: Notify_effect)

lemma notifyMentions_loop_effect:
  assumes "notifyMentions_loop c status ms errs w = Some (errs', w')"
    and "\<forall>m \<in> set ms. aID (mTargetAccount m) = mTargetAccountID m"
  shows "thread_mutes w' = thread_mutes w \<and>
         (\<forall>n \<in> set (notifications w'). n \<in> set (notifications w) \<or>
            (sThreadID status, nTargetAccountID n) \<notin> set (thread_mutes w))"
  using assms
proof (induction ms arbitrary: errs w)
  case Nil
  then show ?case by simp
next
  case (Cons m ms)
  from Cons.prems(1) obtain errs1 w1 where
    step: "notifyMention c status m errs w = Some (errs1, w1)" and
    rest: "notifyMentions_loop c status ms errs1 w1 = Some (errs', w')"
    by (auto split: option.splits)
  from Cons.prems(2) have wf: "aID (mTargetAccount m) = mTargetAccountID m"
    and wfs: "\<forall>m \<in> set ms. aID (mTargetAccount m) = mTargetAccountID m" by simp_all
  note one = notifyMention_effect [OF step]
  note more = Cons.IH [OF rest wfs]
  show ?case
  proof (intro conjI ballI)
    show "thread_mutes w' = thread_mutes w" using one more by simp
  next
    fix n assume "n \<in> set (notifications w')"
    with more have "n \<in> set (notifications w1) \<or>
        (sThreadID status, nTargetAccountID n) \<notin> set (thread_mutes w1)" by blast
    then show "n \<in> set (notifications w) \<or>
        (sThreadID status, nTargetAccountID n) \<notin> set (thread_mutes w)"
      using one wf by auto
  qed
qed

text \<open>
  Claim C9. For a mention, a fave or a boost whose local target account has muted the
  thread of the status, no notification is created for that account:
  \<open>notifyFave\<close>, \<open>notifyAnnounce\<close> and the loop body of \<open>notifyMentions\<close> return with the
  notifications as they were, and when the mute check is reached and answers (the
  entity was populated, the target is local, storage did not fail) they return success
  after exactly the two reads, without calling \<open>Notify\<close>. For a whole run of
  \<open>notifyMentions\<close> over populated mentions (each carries the account that its
  \<open>TargetAccountID\<close> names), every notification that is there afterwards and was not
  there before is for an account that has not muted the thread.
\<close>

theorem muted_thread_not_notified:
  "((sThreadID (fStatus fave), fTargetAccountID fave) \<in> set (thread_mutes w) \<longrightarrow>
      (\<exists>r w'. notifyFave c fave w = Some (r, w') \<and> notifications w' = notifications w \<and>
         (fTargetAccountID fave \<noteq> fAccountID fave \<and>
          fails c (EvPopulate (''fave '' @ fID fave)) = None \<and>
          \<not> aIsRemote (fTargetAccount fave) \<and>
          IsThreadMutedByAccount_fails c (sThreadID (fStatus fave)) (fTargetAccountID fave) = None
          \<longrightarrow> r = None \<and>
              trace w' = trace w @ [EvPopulate (''fave '' @ fID fave),
                EvIsThreadMuted (sThreadID (fStatus fave)) (fTargetAccountID fave)]))) \<and>
   ((sBoostOfThreadID boost, sBoostOfAccountID boost) \<in> set (thread_mutes w) \<longrightarrow>
      (\<exists>r w'. notifyAnnounce c boost w = Some (r, w') \<and> notifications w' = notifications w \<and>
         (sBoostOfID boost \<noteq> [] \<and> sBoostOfAccountID boost \<noteq> sAccountID boost \<and>
          fails c (EvPopulate (''status '' @ sID boost)) = None \<and>
          \<not> aIsRemote (sBoostOfAccount boost) \<and>
          IsThreadMutedByAccount_fails c (sBoostOfThreadID boost) (sBoostOfAccountID boost) = None
          \<longrightarrow> r = None \<and>
              trace w' = trace w @ [EvPopulate (''status '' @ sID boost),
                EvIsThreadMuted (sBoostOfThreadID boost) (sBoostOfAccountID boost)]))) \<and>
   ((sThreadID status, mTargetAccountID mention) \<in> set (thread_mutes w) \<longrightarrow>
      (\<exists>errs' w'. notifyMention c status mention errs w = Some (errs', w') \<and>
         notifications w' = notifications w \<and>
         (fails c (EvPopulate (''mention '' @ mID mention)) = None \<and>
          \<not> aIsRemote (mTargetAccount mention) \<and>
          IsThreadMutedByAccount_fails c (sThreadID status) (mTargetAccountID mention) = None
          \<longrightarrow> errs' = errs \<and>
              trace w' = trace w @ [EvPopulate (''mention '' @ mID mention),
                EvIsThreadMuted (sThreadID status) (mTargetAccountID mention)]))) \<and>
   ((\<forall>m \<in> set (sMentions status). aID (mTargetAccount m) = mTargetAccountID m) \<and>
    notifyMentions c status w = Some (res, w2) \<longrightarrow>
      (\<forall>n \<in> set (notifications w2). n \<in> set (notifications w) \<or>
         (sThreadID status, nTargetAccountID n) \<notin> set (thread_mutes w)))"
proof (intro conjI impI)
  assume "(sThreadID (fStatus fave), fTargetAccountID fave) \<in> set (thread_mutes w)"
  then show "\<exists>r w'. notifyFave c fave w = Some (r, w') \<and> notifications w' = notifications w \<and>
         (fTargetAccountID fave \<noteq> fAccountID fave \<and>
          fails c (EvPopulate (''fave '' @ fID fave)) = None \<and>
          \<not> aIsRemote (fTargetAccount fave) \<and>
          IsThreadMutedByAccount_fails c (sThreadID (fStatus fave)) (fTargetAccountID fave) = None
          \<longrightarrow> r = None \<and>
              trace w' = trace w @ [EvPopulate (''fave '' @ fID fave),
                EvIsThreadMuted (sThreadID (fStatus fave)) (fTargetAccountID fave)])"
    by (simp add: notifyFave_def Populate_def call_def IsThreadMutedByAccount_def Let_def
             split: option.splits)
next
  assume "(sBoostOfThreadID boost, sBoostOfAccountID boost) \<in> set (thread_mutes w)"
  then show "\<exists>r w'. notifyAnnounce c boost w = Some (r, w') \<and> notifications w' = notifications w \<and>
         (sBoostOfID boost \<noteq> [] \<and> sBoostOfAccountID boost \<noteq> sAccountID boost \<and>
          fails c (EvPopulate (''status '' @ sID boost)) = None \<and>
          \<not> aIsRemote (sBoostOfAccount boost) \<and>
          IsThreadMutedByAccount_fails c (sBoostOfThreadID boost) (sBoostOfAccountID boost) = None
          \<longrightarrow> r = None \<and>
              trace w' = trace w @ [EvPopulate (''status '' @ sID boost),
                EvIsThreadMuted (sBoostOfThreadID boost) (sBoostOfAccountID boost)])"
    by (simp add: notifyAnnounce_def Populate_def call_def IsThreadMutedByAccount_def Let_def
             split: option.splits)
next
  assume "(sThreadID status, mTargetAccountID mention) \<in> set (thread_mutes w)"
  then show "\<exists>errs' w'. notifyMention c status mention errs w = Some (errs', w') \<and>
         notifications w' = notifications w \<and>
         (fails c (EvPopulate (''mention '' @ mID mention)) = None \<and>
          \<not> aIsRemote (mTargetAccount mention) \<and>
          IsThreadMutedByAccount_fails c (sThreadID status) (mTargetAccountID mention) = None
          \<longrightarrow> errs' = errs \<and>
              trace w' = trace w @ [EvPopulate (''mention '' @ mID mention),
                EvIsThreadMuted (sThreadID status) (mTargetAccountID mention)])"
    by (simp add: notifyMention_def Populate_def call_def IsThreadMutedByAccount_def Let_def
             split: option.splits)
next
  assume a: "(\<forall>m \<in> set (sMentions status). aID (mTargetAccount m) = mTargetAccountID m) \<and>
    notifyMentions c status w = Some (res, w2)"
  then obtain errs where "notifyMentions_loop c status (sMentions status) [] w = Some (errs, w2)"
    by (auto simp: notifyMentions_def split: option.splits)
  with a show "\<forall>n \<in> set (notifications w2). n \<in> set (notifications w) \<or>
         (sThreadID status, nTargetAccountID n) \<notin> set (thread_mutes w)"
    using notifyMentions_loop_effect by blast
qed

theorem muted_thread_not_notified_witness:
  "notifyFave reliable bob_fave muted_world
     = Some (None, muted_world\<lparr>trace := [EvPopulate ''fave 01FAVE'',
                                          EvIsThreadMuted ''T1'' ''01ALICE'']\<rparr>) \<and>
   notifyAnnounce reliable bob_boost muted_world
     = Some (None, muted_world\<lparr>trace := [EvPopulate ''status 01BOOST'',
                                          EvIsThreadMuted ''T1'' ''01ALICE'']\<rparr>) \<and>
   notifyMention reliable alice_status bob_mention [] muted_world
     = Some ([], muted_world\<lparr>trace := [EvPopulate ''mention 01MENTION'',
                                        EvIsThreadMuted ''T1'' ''01BOB'']\<rparr>) \<and>
   notifyMentions reliable alice_status muted_world
     = Some (None, muted_world\<lparr>trace := [EvPopulate ''mention 01MENTION'',
                                          EvIsThreadMuted ''T1'' ''01BOB'']\<rparr>)"
  using muted_thread_not_notified
          [where fave = bob_fave and w = muted_world and c = reliable and boost = bob_boost
             and status = alice_status and mention = bob_mention and errs = "[]"
             and res = None
             and ?w2.0 = "muted_world\<lparr>trace := [EvPopulate ''mention 01MENTION'',
                                                  EvIsThreadMuted ''T1'' ''01BOB'']\<rparr>"]
  by (simp add: instance_defs notifyFave_def notifyAnnounce_def notifyMention_def
        notifyMentions_def Combine_def Populate_def call_def IsThreadMutedByAccount_def
        emit_def)


subsection \<open>Dispatch\<close>

text \<open>
  Every pair of the handler sets is dispatched to its handler: the tables
  \<open>clientAPI_handlers\<close> and \<open>fediAPI_handlers\<close> are the cases of the two switches.
\<close>

lemma registered_pair_runs_handler:
  "list_all (\<lambda>((a, ob), h).
      ProcessFromClientAPI run (cMsg\<lparr>cmAPActivityType := a, cmAPObjectType := ob\<rparr>) w
        = run h (cMsg\<lparr>cmAPActivityType := a, cmAPObjectType := ob\<rparr>)
            (emit (EvLog ''processing from client API'') w)) clientAPI_handlers \<and>
   list_all (\<lambda>((a, ob), h).
      ProcessFromFediAPI run' (fMsg\<lparr>fmAPActivityType := a, fmAPObjectType := ob\<rparr>) w
        = run' h (fMsg\<lparr>fmAPActivityType := a, fmAPObjectType := ob\<rparr>)
            (emit (EvLog ''processing from fedi API'') w)) fediAPI_handlers"
  by (simp add: ProcessFromClientAPI_def ProcessFromFediAPI_def clientAPI_handlers_def
        fediAPI_handlers_def ap_defs Let_def)

text \<open>
  Claim C2. For a message whose pair of activity type and object type has no handler
  in the handler set of its origin, \<open>ProcessFromClientAPI\<close> and \<open>ProcessFromFediAPI\<close>
  return the error \<open>unhandled: <activity type> <object type>\<close>, whatever the handlers
  are: no handler is invoked, and nothing but the dispatcher's own log line happens.
\<close>

theorem unregistered_pair_is_unhandled:
  "((cmAPActivityType cMsg, cmAPObjectType cMsg) \<notin> fst ` set clientAPI_handlers \<longrightarrow>
      ProcessFromClientAPI run cMsg w =
        Some (Some (Err (''unhandled: '' @ cmAPActivityType cMsg @ '' '' @ cmAPObjectType cMsg)),
              emit (EvLog ''processing from client API'') w)) \<and>
   ((fmAPActivityType fMsg, fmAPObjectType fMsg) \<notin> fst ` set fediAPI_handlers \<longrightarrow>
      ProcessFromFediAPI run' fMsg w =
        Some (Some (Err (''unhandled: '' @ fmAPActivityType fMsg @ '' '' @ fmAPObjectType fMsg)),
              emit (EvLog ''processing from fedi API'') w))"
  by (simp add: ProcessFromClientAPI_def ProcessFromFediAPI_def clientAPI_handlers_def
        fediAPI_handlers_def ap_defs Let_def)

theorem unregistered_pair_is_unhandled_witness:
  "ProcessFromClientAPI (\<lambda>h m v. Some (None, v))
       (delete_note_client\<lparr>cmAPObjectType := ActivityQuestion\<rparr>) empty_world
     = Some (Some (Err ''unhandled: Delete Question''),
             empty_world\<lparr>trace := [EvLog ''processing from client API'']\<rparr>) \<and>
   ProcessFromFediAPI (\<lambda>h m v. Some (None, v))
       (delete_note_fedi\<lparr>fmAPActivityType := ActivityUndo\<rparr>) empty_world
     = Some (Some (Err ''unhandled: Undo Note''),
             empty_world\<lparr>trace := [EvLog ''processing from fedi API'']\<rparr>)"
  using unregistered_pair_is_unhandled
          [where cMsg = "delete_note_client\<lparr>cmAPObjectType := ActivityQuestion\<rparr>"
             and fMsg = "delete_note_fedi\<lparr>fmAPActivityType := ActivityUndo\<rparr>"
             and w = empty_world and run = "\<lambda>h m v. Some (None, v)"
             and run' = "\<lambda>h m v. Some (None, v)"]
  by (simp add: delete_note_client_def delete_note_fedi_def clientAPI_handlers_def
        fediAPI_handlers_def ap_defs empty_world_def emit_def)


subsection \<open>Deleting a status\<close>

text \<open>
  Claim C3. In every execution of a Delete Status handler, from the federation API or
  from a client, the purges of the delivery queue by \<open>ObjectID\<close> and by \<open>TargetID\<close>, of
  the client queue by \<open>TargetURI\<close> and of the federator queue by \<open>TargetURI\<close>, all keyed
  on the URI of the status, are issued before \<open>wipeStatus\<close> is invoked; and when the
  status could be populated (or had no rows), the first six calls of the handler are
  the populate, the four purges and the wipe, in this order.
\<close>

theorem purge_precedes_wipe:
  "(fmGTSModel fMsg = StatusModel status \<longrightarrow>
      all_before
        [EvQueueDelete DeliveryQueue ''ObjectID'' (sURI status),
         EvQueueDelete DeliveryQueue ''TargetID'' (sURI status),
         EvQueueDelete ClientQueue ''TargetURI'' (sURI status),
         EvQueueDelete FederatorQueue ''TargetURI'' (sURI status)]
        (EvWipeStatus (sID status) True)
        (new_events w (snd (fediAPI_DeleteStatus c fMsg w))) \<and>
      ((case fails c (EvPopulate (''status '' @ sID status)) of
          None \<Rightarrow> True | Some e \<Rightarrow> is_ErrNoEntries e) \<longrightarrow>
       take 6 (new_events w (snd (fediAPI_DeleteStatus c fMsg w))) =
         [EvPopulate (''status '' @ sID status),
          EvQueueDelete DeliveryQueue ''ObjectID'' (sURI status),
          EvQueueDelete DeliveryQueue ''TargetID'' (sURI status),
          EvQueueDelete ClientQueue ''TargetURI'' (sURI status),
          EvQueueDelete FederatorQueue ''TargetURI'' (sURI status),
          EvWipeStatus (sID status) True])) \<and>
   (cmGTSModel cMsg = StatusModel status \<longrightarrow>
      all_before
        [EvQueueDelete DeliveryQueue ''ObjectID'' (sURI status),
         EvQueueDelete DeliveryQueue ''TargetID'' (sURI status),
         EvQueueDelete ClientQueue ''TargetURI'' (sURI status),
         EvQueueDelete FederatorQueue ''TargetURI'' (sURI status)]
        (EvWipeStatus (sID status) False)
        (new_events w (snd (clientAPI_DeleteStatus c cMsg w))) \<and>
      ((case fails c (EvPopulate (''status '' @ sID status)) of
          None \<Rightarrow> True | Some e \<Rightarrow> is_ErrNoEntries e) \<longrightarrow>
       take 6 (new_events w (snd (clientAPI_DeleteStatus c cMsg w))) =
         [EvPopulate (''status '' @ sID status),
          EvQueueDelete DeliveryQueue ''ObjectID'' (sURI status),
          EvQueueDelete DeliveryQueue ''TargetID'' (sURI status),
          EvQueueDelete ClientQueue ''TargetURI'' (sURI status),
          EvQueueDelete FederatorQueue ''TargetURI'' (sURI status),
          EvWipeStatus (sID status) False]))"
  by (auto simp: fediAPI_DeleteStatus_def clientAPI_DeleteStatus_def Populate_def call_def
        Let_def all_before_def logged_trace new_events_def split: option.splits)

theorem purge_precedes_wipe_witness:
  "new_events empty_world (snd (fediAPI_DeleteStatus reliable delete_note_fedi empty_world)) =
     [EvPopulate ''status 01STATUS'',
      EvQueueDelete DeliveryQueue ''ObjectID'' ''https://example.org/statuses/01STATUS'',
      EvQueueDelete DeliveryQueue ''TargetID'' ''https://example.org/statuses/01STATUS'',
      EvQueueDelete ClientQueue ''TargetURI'' ''https://example.org/statuses/01STATUS'',
      EvQueueDelete FederatorQueue ''TargetURI'' ''https://example.org/statuses/01STATUS'',
      EvWipeStatus ''01STATUS'' True,
      EvStatsUpdate ''decrementStatusesCount'' ''01CAROL''] \<and>
   new_events empty_world (snd (clientAPI_DeleteStatus reliable delete_note_client empty_world)) =
     [EvPopulate ''status 01STATUS'',
      EvQueueDelete DeliveryQueue ''ObjectID'' ''https://example.org/statuses/01STATUS'',
      EvQueueDelete DeliveryQueue ''TargetID'' ''https://example.org/statuses/01STATUS'',
      EvQueueDelete ClientQueue ''TargetURI'' ''https://example.org/statuses/01STATUS'',
      EvQueueDelete FederatorQueue ''TargetURI'' ''https://example.org/statuses/01STATUS'',
      EvWipeStatus ''01STATUS'' False,
      EvStatsUpdate ''decrementStatusesCount'' ''01ALICE'',
      EvFederate ''DeleteStatus'' ''01STATUS''] \<and>
   all_before
     [EvQueueDelete DeliveryQueue ''ObjectID'' ''https://example.org/statuses/01STATUS'',
      EvQueueDelete DeliveryQueue ''TargetID'' ''https://example.org/statuses/01STATUS'',
      EvQueueDelete ClientQueue ''TargetURI'' ''https://example.org/statuses/01STATUS'',
      EvQueueDelete FederatorQueue ''TargetURI'' ''https://example.org/statuses/01STATUS'']
     (EvWipeStatus ''01STATUS'' True)
     (new_events empty_world (snd (fediAPI_DeleteStatus reliable delete_note_fedi empty_world))) \<and>
   all_before
     [EvQueueDelete DeliveryQueue ''ObjectID'' ''https://example.org/statuses/01STATUS'',
      EvQueueDelete DeliveryQueue ''TargetID'' ''https://example.org/statuses/01STATUS'',
      EvQueueDelete ClientQueue ''TargetURI'' ''https://example.org/statuses/01STATUS'',
      EvQueueDelete FederatorQueue ''TargetURI'' ''https://example.org/statuses/01STATUS'']
     (EvWipeStatus ''01STATUS'' False)
     (new_events empty_world (snd (clientAPI_DeleteStatus reliable delete_note_client empty_world)))"
proof -
  have f: "fmGTSModel delete_note_fedi = StatusModel alice_status"
    and g: "cmGTSModel delete_note_client = StatusModel alice_status"
    by (simp_all add: delete_note_fedi_def delete_note_client_def)
  have ids: "sID alice_status = ''01STATUS''"
    "sURI alice_status = ''https://example.org/statuses/01STATUS''"
    by (simp_all add: alice_status_def)
  have runs:
    "new_events empty_world (snd (fediAPI_DeleteStatus reliable delete_note_fedi empty_world)) =
     [EvPopulate ''status 01STATUS'',
      EvQueueDelete DeliveryQueue ''ObjectID'' ''https://example.org/statuses/01STATUS'',
      EvQueueDelete DeliveryQueue ''TargetID'' ''https://example.org/statuses/01STATUS'',
      EvQueueDelete ClientQueue ''TargetURI'' ''https://example.org/statuses/01STATUS'',
      EvQueueDelete FederatorQueue ''TargetURI'' ''https://example.org/statuses/01STATUS'',
      EvWipeStatus ''01STATUS'' True,
      EvStatsUpdate ''decrementStatusesCount'' ''01CAROL'']"
    "new_events empty_world (snd (clientAPI_DeleteStatus reliable delete_note_client empty_world)) =
     [EvPopulate ''status 01STATUS'',
      EvQueueDelete DeliveryQueue ''ObjectID'' ''https://example.org/statuses/01STATUS'',
      EvQueueDelete DeliveryQueue ''TargetID'' ''https://example.org/statuses/01STATUS'',
      EvQueueDelete ClientQueue ''TargetURI'' ''https://example.org/statuses/01STATUS'',
      EvQueueDelete FederatorQueue ''TargetURI'' ''https://example.org/statuses/01STATUS'',
      EvWipeStatus ''01STATUS'' False,
      EvStatsUpdate ''decrementStatusesCount'' ''01ALICE'',
      EvFederate ''DeleteStatus'' ''01STATUS'']"
    by (simp_all add: fediAPI_DeleteStatus_def clientAPI_DeleteStatus_def instance_defs
          Populate_def call_def logged_def emit_def new_events_def Let_def)
  from purge_precedes_wipe [where fMsg = delete_note_fedi and cMsg = delete_note_client
      and status = alice_status and w = empty_world and c = reliable] f g
  show ?thesis
    unfolding ids by (simp only: runs simp_thms)
qed


subsection \<open>Moving an account\<close>

text \<open>
  Claim C8. In the Move Account handler of the client API, \<open>SucceededAt\<close> is set and
  persisted only after the federation send has returned success. When the send fails,
  the handler returns an error, leaves the move as it was and issues no update of it.
  Conversely, whenever the handler changes \<open>SucceededAt\<close> or issues an update of the
  move, the send had succeeded, \<open>SucceededAt\<close> is the time of the attempt, and the calls
  were: redirect followers, populate the move, federate the move, update the move.
\<close>

theorem move_succeeds_only_after_federation:
  "(\<forall>e. fails c (EvFederate ''MoveAccount'' (aID (cmOrigin cMsg))) = Some e \<longrightarrow>
      (\<exists>r w'. clientAPI_MoveAccount c cMsg w = (Some r, cmOriginMove cMsg, w') \<and>
         (\<forall>i t. EvUpdateMove i t \<notin> set (new_events w w')))) \<and>
   (\<forall>r move' w'. clientAPI_MoveAccount c cMsg w = (r, move', w') \<and>
        (mvSucceededAt move' \<noteq> mvSucceededAt (cmOriginMove cMsg) \<or>
         (\<exists>i t. EvUpdateMove i t \<in> set (new_events w w')))
      \<longrightarrow> fails c (EvFederate ''MoveAccount'' (aID (cmOrigin cMsg))) = None \<and>
          move' = (cmOriginMove cMsg)\<lparr>mvSucceededAt := mvAttemptedAt (cmOriginMove cMsg)\<rparr> \<and>
          new_events w w' =
            [EvRedirectFollowers (aID (cmOrigin cMsg)) (aID (cmTarget cMsg)),
             EvPopulate (''move '' @ mvID (cmOriginMove cMsg)),
             EvFederate ''MoveAccount'' (aID (cmOrigin cMsg)),
             EvUpdateMove (mvID (cmOriginMove cMsg)) (mvAttemptedAt (cmOriginMove cMsg))])"
  by (auto simp: clientAPI_MoveAccount_def Populate_def call_def Let_def new_events_def
           split: option.splits)

theorem move_succeeds_only_after_federation_witness:
  "clientAPI_MoveAccount (failing (EvFederate ''MoveAccount'' ''01ALICE'')) move_msg empty_world
     = (Some (Wrap ''error federating account move'' (Err ''failure'')),
        \<lparr>mvID = ''01MOVE'', mvAttemptedAt = 1700000000, mvSucceededAt = 0\<rparr>,
        empty_world\<lparr>trace := [EvRedirectFollowers ''01ALICE'' ''01BOB'',
                                EvPopulate ''move 01MOVE'',
                                EvFederate ''MoveAccount'' ''01ALICE'']\<rparr>) \<and>
   clientAPI_MoveAccount reliable move_msg empty_world
     = (None,
        \<lparr>mvID = ''01MOVE'', mvAttemptedAt = 1700000000, mvSucceededAt = 1700000000\<rparr>,
        empty_world\<lparr>trace := [EvRedirectFollowers ''01ALICE'' ''01BOB'',
                                EvPopulate ''move 01MOVE'',
                                EvFederate ''MoveAccount'' ''01ALICE'',
                                EvUpdateMove ''01MOVE'' 1700000000]\<rparr>)"
  using move_succeeds_only_after_federation
          [where c = "failing (EvFederate ''MoveAccount'' ''01ALICE'')" and cMsg = move_msg
             and w = empty_world]
        move_succeeds_only_after_federation
          [where c = reliable and cMsg = move_msg and w = empty_world]
  by (simp add: clientAPI_MoveAccount_def instance_defs Populate_def call_def emit_def Let_def)


subsection \<open>Failure of the primary effect\<close>





subsection \<open>Blocks\<close>





subsection \<open>Releasing the lock, and failures of the push\<close>






subsection \<open>Accepted follows\<close>








subsection \<open>At most one notification per key\<close>

text \<open>The steps of one worker running alone are the function \<open>Notify\<close>.\<close>

lemma Notify_is_steps:
  "Notify c nt target origin statusID w =
     (case Notify_steps 6 c nt target origin statusID (AtEntry, w) of
        (Done r, w') \<Rightarrow> Some (r, w')
      | (p, w') \<Rightarrow> None)"
  by (simp add: Notify_def eval_nat_numeral Let_def emit_def Lock_def Unlock_def
        GetNotification_def PutNotification_def call_def
        split: option.splits sum.splits prod.splits)


text \<open>
  What one step does to the lock and to the stored notifications: it leaves both
  alone, or takes the free lock, or works under the lock without inserting, or inserts
  under the lock, or releases the lock.
\<close>

lemma Notify_step_cases:
  assumes "Notify_step c nt target origin statusID p w = Some (p', w')"
  shows
    "(\<not> holds_lock p \<and> \<not> holds_lock p' \<and> held w' = held w \<and>
        notifications w' = notifications w) \<or>
     (\<not> holds_lock p \<and> holds_lock p' \<and> p' \<noteq> AtPut \<and>
        getNotifyLockURI nt target origin statusID \<notin> set (held w) \<and>
        held w' = getNotifyLockURI nt target origin statusID # held w \<and>
        notifications w' = notifications w) \<or>
     (holds_lock p \<and> holds_lock p' \<and> held w' = held w \<and>
        notifications w' = notifications w \<and>
        (p' = AtPut \<longrightarrow> count_notifications nt (aID target) (aID origin) statusID w = 0)) \<or>
     (p = AtPut \<and> holds_lock p' \<and> p' \<noteq> AtPut \<and> held w' = held w \<and>
        (\<exists>n. notifications w' = notifications w @ [n] \<and>
             notif_matches nt (aID target) (aID origin) statusID n)) \<or>
     (holds_lock p \<and> \<not> holds_lock p' \<and>
        held w' = removeAll (getNotifyLockURI nt target origin statusID) (held w) \<and>
        notifications w' = notifications w)"
proof (cases p)
  case AtEntry
  with assms show ?thesis by (auto split: if_splits)
next
  case AtLock
  with assms show ?thesis by (auto simp: Lock_def split: if_splits option.splits)
next
  case AtCheck
  with assms show ?thesis
    by (auto simp: GetNotification_def Let_def count_notifications_def find_None_filter
             split: if_splits option.splits sum.splits prod.splits)
next
  case AtPut
  with assms show ?thesis
    by (auto simp: PutNotification_def Let_def notif_matches_def
             split: if_splits option.splits prod.splits)
next
  case (AtUnlock n)
  with assms show ?thesis by (auto simp: Unlock_def)
next
  case (AtPush n)
  with assms show ?thesis
    by (auto simp: call_def split: option.splits sum.splits prod.splits
             dest!: NotificationToAPINotification_fields)
next
  case (AtReturn r)
  with assms show ?thesis by (auto simp: Unlock_def)
next
  case (Done r)
  with assms show ?thesis by simp
qed


text \<open>Every step of every worker keeps the invariant, and so does every schedule.\<close>

lemma sys_step_invariant:
  assumes inv: "dedup_invariant nt target origin statusID s"
  shows "dedup_invariant nt target origin statusID (sys_step nt target origin statusID i s)"
proof -
  obtain ws w where s: "s = (ws, w)" by (cases s)
  let ?k = "getNotifyLockURI nt target origin statusID"
  let ?count = "count_notifications nt (aID target) (aID origin) statusID"
  from inv s have
    U: "\<And>a b. a < length ws \<Longrightarrow> b < length ws \<Longrightarrow> holds_lock (snd (ws ! a)) \<Longrightarrow>
          holds_lock (snd (ws ! b)) \<Longrightarrow> a = b" and
    L: "?k \<in> set (held w) \<longleftrightarrow> (\<exists>a < length ws. holds_lock (snd (ws ! a)))" and
    C: "?count w \<le> 1" and
    P: "\<And>a. a < length ws \<Longrightarrow> snd (ws ! a) = AtPut \<Longrightarrow> ?count w = 0"
    by (auto simp: dedup_invariant_def)
  show ?thesis
  proof (cases "i < length ws")
    case False
    with inv s show ?thesis by (simp add: sys_step_def)
  next
    case i: True
    obtain c p where cp: "ws ! i = (c, p)" by (cases "ws ! i")
    show ?thesis
    proof (cases "Notify_step c nt target origin statusID p w")
      case None
      with inv s i cp show ?thesis by (simp add: sys_step_def)
    next
      case (Some r)
      obtain p' w' where r: "r = (p', w')" by (cases r)
      let ?ws = "ws[i := (c, p')]"
      have next_state: "sys_step nt target origin statusID i s = (?ws, w')"
        using s i cp Some r by (simp add: sys_step_def)
      have nth: "\<And>a. a < length ws \<Longrightarrow> snd (?ws ! a) = (if a = i then p' else snd (ws ! a))"
        by (simp add: nth_list_update)
      have pi: "snd (ws ! i) = p" using cp by simp
      from Notify_step_cases [OF Some [unfolded r]]
      consider
        (idle) "\<not> holds_lock p" "\<not> holds_lock p'" "held w' = held w"
          "notifications w' = notifications w"
      | (acquire) "\<not> holds_lock p" "holds_lock p'" "p' \<noteq> AtPut" "?k \<notin> set (held w)"
          "held w' = ?k # held w" "notifications w' = notifications w"
      | (inside) "holds_lock p" "holds_lock p'" "held w' = held w"
          "notifications w' = notifications w" "p' = AtPut \<longrightarrow> ?count w = 0"
      | (put) n where "p = AtPut" "holds_lock p'" "p' \<noteq> AtPut" "held w' = held w"
          "notifications w' = notifications w @ [n]"
          "notif_matches nt (aID target) (aID origin) statusID n"
      | (release) "holds_lock p" "\<not> holds_lock p'" "held w' = removeAll ?k (held w)"
          "notifications w' = notifications w"
        by blast
      then have "dedup_invariant nt target origin statusID (?ws, w')"
      proof cases
        case idle
        have same: "\<And>a. a < length ws \<Longrightarrow> holds_lock (snd (?ws ! a)) = holds_lock (snd (ws ! a))"
          using idle(1,2) pi by (simp add: nth)
        have cnt: "?count w' = ?count w" using idle(4) by (simp add: count_notifications_def)
        have noput: "\<And>a. a < length ws \<Longrightarrow> snd (?ws ! a) = AtPut \<Longrightarrow> snd (ws ! a) = AtPut"
          using idle(2) by (auto simp: nth split: if_splits)
        show ?thesis
          unfolding dedup_invariant_def
          using U L C P same cnt noput idle(3) by (auto simp del: nth_list_update_eq)
      next
        case acquire
        from acquire(4) L have none: "\<And>a. a < length ws \<Longrightarrow> \<not> holds_lock (snd (ws ! a))"
          by blast
        have hold: "\<And>a. a < length ws \<Longrightarrow> holds_lock (snd (?ws ! a)) \<longleftrightarrow> a = i"
          using none acquire(2) by (simp add: nth)
        have cnt: "?count w' = ?count w" using acquire(6) by (simp add: count_notifications_def)
        have noput: "\<And>a. a < length ws \<Longrightarrow> snd (?ws ! a) \<noteq> AtPut"
        proof -
          fix a assume a: "a < length ws"
          show "snd (?ws ! a) \<noteq> AtPut"
          proof (cases "a = i")
            case True
            with a acquire(3) show ?thesis by (simp add: nth)
          next
            case False
            from none [OF a] have "snd (ws ! a) \<noteq> AtPut" by auto
            with False a show ?thesis by (simp add: nth)
          qed
        qed
        show ?thesis
          unfolding dedup_invariant_def
          using C cnt hold noput acquire(5) i by (auto simp del: nth_list_update_eq)
      next
        case inside
        have same: "\<And>a. a < length ws \<Longrightarrow> holds_lock (snd (?ws ! a)) = holds_lock (snd (ws ! a))"
          using inside(1,2) pi by (simp add: nth)
        have cnt: "?count w' = ?count w" using inside(4) by (simp add: count_notifications_def)
        have put0: "\<And>a. a < length ws \<Longrightarrow> snd (?ws ! a) = AtPut \<Longrightarrow> ?count w = 0"
          using inside(5) P by (auto simp: nth split: if_splits)
        show ?thesis
          unfolding dedup_invariant_def
          using U L C same cnt put0 inside(3) by (auto simp del: nth_list_update_eq)
      next
        case (put n)
        have hp: "holds_lock p" using put(1) by simp
        have same: "\<And>a. a < length ws \<Longrightarrow> holds_lock (snd (?ws ! a)) = holds_lock (snd (ws ! a))"
          using hp put(2) pi by (simp add: nth)
        have zero: "?count w = 0" using P [OF i] pi put(1) by simp
        have cnt: "?count w' = 1" using zero put(5,6) by (simp add: count_notifications_def)
        have noput: "\<And>a. a < length ws \<Longrightarrow> snd (?ws ! a) \<noteq> AtPut"
        proof -
          fix a assume a: "a < length ws"
          show "snd (?ws ! a) \<noteq> AtPut"
          proof (cases "a = i")
            case True
            with a put(3) show ?thesis by (simp add: nth)
          next
            case False
            have "snd (ws ! a) \<noteq> AtPut"
            proof
              assume "snd (ws ! a) = AtPut"
              then have "holds_lock (snd (ws ! a))" by simp
              from U [OF a i this] hp pi False show False by simp
            qed
            with False a show ?thesis by (simp add: nth)
          qed
        qed
        show ?thesis
          unfolding dedup_invariant_def
          using U L same cnt noput put(4) by (auto simp del: nth_list_update_eq)
      next
        case release
        have only: "\<And>a. a < length ws \<Longrightarrow> holds_lock (snd (ws ! a)) \<Longrightarrow> a = i"
          using U i release(1) pi by blast
        have none: "\<And>a. a < length ws \<Longrightarrow> \<not> holds_lock (snd (?ws ! a))"
          using only release(2) by (auto simp: nth)
        have cnt: "?count w' = ?count w" using release(4) by (simp add: count_notifications_def)
        have noput: "\<And>a. a < length ws \<Longrightarrow> snd (?ws ! a) \<noteq> AtPut"
        proof -
          fix a assume a: "a < length ws"
          from none [OF a] show "snd (?ws ! a) \<noteq> AtPut" by auto
        qed
        show ?thesis
          unfolding dedup_invariant_def
          using C cnt none noput release(3) by (auto simp del: nth_list_update_eq)
      qed
      with next_state show ?thesis by simp
    qed
  qed
qed

lemma run_schedule_invariant:
  "dedup_invariant nt target origin statusID s \<Longrightarrow>
   dedup_invariant nt target origin statusID (run_schedule nt target origin statusID sched s)"
  by (induction sched arbitrary: s) (simp_all add: sys_step_invariant)

text \<open>Calls in sequence: each returns when the lock is free, and leaves it free.\<close>

lemma Notify_returns:
  assumes "getNotifyLockURI nt target origin statusID \<notin> set (held w)"
  shows "\<exists>r w'. Notify c nt target origin statusID w = Some (r, w')"
  using assms
  by (auto simp: Notify_def Lock_def Let_def split: option.splits sum.splits prod.splits)

lemma Notify_count:
  assumes "Notify c nt target origin statusID w = Some (r, w')"
    and "count_notifications nt (aID target) (aID origin) statusID w \<le> 1"
  shows "count_notifications nt (aID target) (aID origin) statusID w' \<le> 1"
  using Notify_effect [OF assms(1)] assms(2)
  by (auto simp: count_notifications_def find_None_filter)

lemma Notify_existing:
  assumes "\<not> aIsRemote target"
    and "getNotifyLockURI nt target origin statusID \<notin> set (held w)"
    and "GetNotification_fails c nt (aID target) (aID origin) statusID = None"
    and "find (notif_matches nt (aID target) (aID origin) statusID) (notifications w) = Some n"
  shows "Notify c nt target origin statusID w =
           Some (None, w\<lparr>trace := trace w @
                   [EvLock (getNotifyLockURI nt target origin statusID),
                    EvGetNotification nt (aID target) (aID origin) statusID,
                    EvUnlock (getNotifyLockURI nt target origin statusID)]\<rparr>)"
  using assms
  by (simp add: Notify_def Lock_def Unlock_def GetNotification_def emit_def Let_def)

lemma Notify_calls_invariant:
  assumes "getNotifyLockURI nt target origin statusID \<notin> set (held w)"
    and "count_notifications nt (aID target) (aID origin) statusID w \<le> 1"
  shows "\<exists>w'. Notify_calls cs nt target origin statusID w = Some w' \<and> held w' = held w \<and>
           count_notifications nt (aID target) (aID origin) statusID w' \<le> 1"
  using assms
proof (induction cs arbitrary: w)
  case Nil
  then show ?case by simp
next
  case (Cons c cs)
  from Notify_returns [OF Cons.prems(1)] obtain r w1 where
    one: "Notify c nt target origin statusID w = Some (r, w1)" by blast
  have h: "held w1 = held w" using Notify_effect [OF one] by simp
  have k: "count_notifications nt (aID target) (aID origin) statusID w1 \<le> 1"
    using Notify_count [OF one Cons.prems(2)] .
  from Cons.IH [of w1] h k Cons.prems(1) one show ?case by simp
qed

text \<open>
  Claim C1. For a tuple of notification type, target account, origin account and
  status ID, any number of calls of \<open>Notify\<close> with those parameters leaves at most one
  notification stored for the tuple, when there was at most one before and the lock
  of the key is free at the start. This holds for calls that run at the same time,
  in whatever order their steps are interleaved, each step taken under the lock of the
  key where the source takes it; and for calls made one after the other, all of which
  return and leave the lock free. A call that finds a notification with those
  parameters takes the lock, looks the notification up, releases the lock and returns
  success: it creates nothing.
\<close>

theorem notify_at_most_one:
  assumes "count_notifications nt (aID target) (aID origin) statusID w \<le> 1"
    and "getNotifyLockURI nt target origin statusID \<notin> set (held w)"
  shows "count_notifications nt (aID target) (aID origin) statusID
           (snd (run_schedule nt target origin statusID sched
                   (map (\<lambda>c. (c, AtEntry)) cs, w))) \<le> 1 \<and>
         (\<exists>w'. Notify_calls cs nt target origin statusID w = Some w' \<and> held w' = held w \<and>
            count_notifications nt (aID target) (aID origin) statusID w' \<le> 1) \<and>
         (\<forall>c n. \<not> aIsRemote target \<and>
            GetNotification_fails c nt (aID target) (aID origin) statusID = None \<and>
            find (notif_matches nt (aID target) (aID origin) statusID) (notifications w) = Some n
            \<longrightarrow> Notify c nt target origin statusID w =
                  Some (None, w\<lparr>trace := trace w @
                          [EvLock (getNotifyLockURI nt target origin statusID),
                           EvGetNotification nt (aID target) (aID origin) statusID,
                           EvUnlock (getNotifyLockURI nt target origin statusID)]\<rparr>))"
proof (intro conjI allI impI)
  have "dedup_invariant nt target origin statusID (map (\<lambda>c. (c, AtEntry)) cs, w)"
    using assms by (auto simp: dedup_invariant_def)
  then have "dedup_invariant nt target origin statusID
      (run_schedule nt target origin statusID sched (map (\<lambda>c. (c, AtEntry)) cs, w))"
    by (rule run_schedule_invariant)
  then show "count_notifications nt (aID target) (aID origin) statusID
           (snd (run_schedule nt target origin statusID sched
                   (map (\<lambda>c. (c, AtEntry)) cs, w))) \<le> 1"
    by (auto simp: dedup_invariant_def split: prod.splits)
next
  show "\<exists>w'. Notify_calls cs nt target origin statusID w = Some w' \<and> held w' = held w \<and>
            count_notifications nt (aID target) (aID origin) statusID w' \<le> 1"
    using assms(2,1) by (rule Notify_calls_invariant)
next
  fix c :: collab and n :: Notification
  assume "\<not> aIsRemote target \<and>
            GetNotification_fails c nt (aID target) (aID origin) statusID = None \<and>
            find (notif_matches nt (aID target) (aID origin) statusID) (notifications w) = Some n"
  then show "Notify c nt target origin statusID w =
                  Some (None, w\<lparr>trace := trace w @
                          [EvLock (getNotifyLockURI nt target origin statusID),
                           EvGetNotification nt (aID target) (aID origin) statusID,
                           EvUnlock (getNotifyLockURI nt target origin statusID)]\<rparr>)"
    using assms(2) Notify_existing by blast
qed

theorem notify_at_most_one_witness:
  "map snd (fst (run_schedule NotificationFave alice bob ''01STATUS''
       [0, 1, 0, 1, 0, 1, 0, 1, 0, 1, 0, 1, 1]
       (map (\<lambda>c. (c, AtEntry)) [reliable, reliable], empty_world))) = [Done None, Done None] \<and>
   count_notifications NotificationFave ''01ALICE'' ''01BOB'' ''01STATUS''
     (snd (run_schedule NotificationFave alice bob ''01STATUS''
       [0, 1, 0, 1, 0, 1, 0, 1, 0, 1, 0, 1, 1]
       (map (\<lambda>c. (c, AtEntry)) [reliable, reliable], empty_world))) = 1 \<and>
   map_option notifications
     (Notify_calls [reliable, reliable] NotificationFave alice bob ''01STATUS'' empty_world)
     = Some [\<lparr>nID = ''01NOTIF'', nNotificationType = NotificationFave,
              nTargetAccountID = ''01ALICE'', nTargetAccount = Some alice,
              nOriginAccountID = ''01BOB'', nOriginAccount = Some bob,
              nStatusID = ''01STATUS''\<rparr>]"
proof -
  have h1: "count_notifications NotificationFave (aID alice) (aID bob) ''01STATUS'' empty_world \<le> 1"
    by (simp add: count_notifications_def empty_world_def)
  have h2: "getNotifyLockURI NotificationFave alice bob ''01STATUS'' \<notin> set (held empty_world)"
    by (simp add: empty_world_def)
  note inst = notify_at_most_one [OF h1 h2, of "[0, 1, 0, 1, 0, 1, 0, 1, 0, 1, 0, 1, 1]"
               "[reliable, reliable]"]
  have run: "run_schedule NotificationFave alice bob ''01STATUS''
       [0, 1, 0, 1, 0, 1, 0, 1, 0, 1, 0, 1, 1]
       (map (\<lambda>c. (c, AtEntry)) [reliable, reliable], empty_world)
     = ([(reliable, Done None), (reliable, Done None)],
        \<lparr>notifications =
           [\<lparr>nID = ''01NOTIF'', nNotificationType = NotificationFave,
             nTargetAccountID = ''01ALICE'', nTargetAccount = Some alice,
             nOriginAccountID = ''01BOB'', nOriginAccount = Some bob,
             nStatusID = ''01STATUS''\<rparr>],
         thread_mutes = [], held = [], ulids = 1,
         trace =
           [EvLock (getNotifyLockURI NotificationFave alice bob ''01STATUS''),
            EvGetNotification NotificationFave ''01ALICE'' ''01BOB'' ''01STATUS'',
            EvPutNotification
              \<lparr>nID = ''01NOTIF'', nNotificationType = NotificationFave,
               nTargetAccountID = ''01ALICE'', nTargetAccount = Some alice,
               nOriginAccountID = ''01BOB'', nOriginAccount = Some bob,
               nStatusID = ''01STATUS''\<rparr>,
            EvUnlock (getNotifyLockURI NotificationFave alice bob ''01STATUS''),
            EvLock (getNotifyLockURI NotificationFave alice bob ''01STATUS''),
            EvGetFilters ''01ALICE'', EvAccountToAPI ''01BOB'',
            EvGetStatusByID ''01STATUS'', EvStatusToAPI ''01STATUS'',
            EvStreamNotify ''01ALICE''
              \<lparr>apiID = ''01NOTIF'', apiType = ''favourite'', apiHasStatus = True\<rparr>,
            EvGetNotification NotificationFave ''01ALICE'' ''01BOB'' ''01STATUS'',
            EvUnlock (getNotifyLockURI NotificationFave alice bob ''01STATUS'')]\<rparr>)"
    by (simp add: sys_step_def Lock_def Unlock_def GetNotification_def PutNotification_def
          NotificationToAPINotification_def call_def emit_def Let_def notif_matches_def
          empty_world_def reliable_def alice_def bob_def)
  have calls: "map_option notifications
     (Notify_calls [reliable, reliable] NotificationFave alice bob ''01STATUS'' empty_world)
     = Some [\<lparr>nID = ''01NOTIF'', nNotificationType = NotificationFave,
              nTargetAccountID = ''01ALICE'', nTargetAccount = Some alice,
              nOriginAccountID = ''01BOB'', nOriginAccount = Some bob,
              nStatusID = ''01STATUS''\<rparr>]"
    by (simp add: Notify_def Lock_def Unlock_def GetNotification_def PutNotification_def
          NotificationToAPINotification_def call_def emit_def Let_def notif_matches_def
          empty_world_def reliable_def alice_def bob_def)
  show ?thesis
    using inst unfolding run calls
    by (simp add: count_notifications_def notif_matches_def)
qed

end
